theory Spec2Isabelle
  imports Main
begin

section \<open>JavaScript values and the settings object\<close>

text \<open>
  Modelled from the spec: the type \<^verbatim>\<open>LH.Config.Settings\<close> is declared outside
  \<^verbatim>\<open>runner.js\<close>. The specification describes a flat record: the mode fields
  \<^verbatim>\<open>gatherMode\<close> and \<^verbatim>\<open>auditMode\<close>, each \<^verbatim>\<open>false\<close>, \<^verbatim>\<open>true\<close> or a string, \<^verbatim>\<open>output\<close>, and
  further fields that are payload. The settings object is a map from field names to
  primitive values; a field that is absent reads as \<^verbatim>\<open>undefined\<close>. On primitive values
  both \<^verbatim>\<open>===\<close> and the deep equality of \<^verbatim>\<open>lodash.isequal\<close> are equality of values, so
  both are HOL equality on \<open>jsval\<close>.
\<close>

datatype jsval = JUndefined | JNull | JBool bool | JNum int | JStr string

text \<open>JavaScript truthiness: \<^verbatim>\<open>undefined\<close>, \<^verbatim>\<open>null\<close>, \<^verbatim>\<open>false\<close>, \<^verbatim>\<open>0\<close> and the empty
  string are falsy.\<close>

fun truthy :: "jsval \<Rightarrow> bool" where
  "truthy JUndefined = False"
| "truthy JNull = False"
| "truthy (JBool b) = b"
| "truthy (JNum n) = (n \<noteq> 0)"
| "truthy (JStr s) = (s \<noteq> [])"

text \<open>\<^verbatim>\<open>a || b\<close> yields \<^verbatim>\<open>a\<close> when \<^verbatim>\<open>a\<close> is truthy and \<^verbatim>\<open>b\<close> otherwise;
  \<^verbatim>\<open>a === b\<close> yields a boolean.\<close>

definition js_or :: "jsval \<Rightarrow> jsval \<Rightarrow> jsval" where
  "js_or a b = (if truthy a then a else b)"

definition strict_eq :: "jsval \<Rightarrow> jsval \<Rightarrow> jsval" where
  "strict_eq a b = JBool (a = b)"

type_synonym settings = "string \<Rightarrow> jsval option"

text \<open>Property access \<^verbatim>\<open>settings.k\<close>.\<close>

definition get_field :: "settings \<Rightarrow> string \<Rightarrow> jsval" where
  "get_field s k = (case s k of None \<Rightarrow> JUndefined | Some v \<Rightarrow> v)"

definition gatherMode :: "settings \<Rightarrow> jsval" where
  "gatherMode s = get_field s ''gatherMode''"

definition auditMode :: "settings \<Rightarrow> jsval" where
  "auditMode s = get_field s ''auditMode''"

section \<open>Mode dispatch\<close>

text \<open>\<^verbatim>\<open>return !!(settings.gatherMode || settings.gatherMode === settings.auditMode);\<close>\<close>

definition shouldGather :: "settings \<Rightarrow> bool" where
  "shouldGather s = truthy (js_or (gatherMode s) (strict_eq (gatherMode s) (auditMode s)))"

text \<open>\<^verbatim>\<open>return !!(settings.auditMode || settings.gatherMode === settings.auditMode);\<close>\<close>

definition shouldAudit :: "settings \<Rightarrow> bool" where
  "shouldAudit s = truthy (js_or (auditMode s) (strict_eq (gatherMode s) (auditMode s)))"

text \<open>A mode flag is unset when it is absent (\<^verbatim>\<open>undefined\<close>) or holds its default
  \<^verbatim>\<open>false\<close>; a full run has both flags unset in the same way.\<close>

definition unset :: "jsval \<Rightarrow> bool" where
  "unset v = (v = JUndefined \<or> v = JBool False)"


section \<open>Configuration, run options and artifacts\<close>

text \<open>Pass, audit and group definitions are opaque to \<^verbatim>\<open>runner.js\<close>: it only tests
  whether the lists are there and hands them on. A field written \<open>option\<close> is
  \<^verbatim>\<open>undefined\<close> (or \<^verbatim>\<open>null\<close>) when \<open>None\<close>; an array or object, also an empty one, is
  truthy.\<close>

type_synonym PassDefinition = string
type_synonym AuditDefinition = string
type_synonym Connection = string

record CategoryDefinition =
  category_id :: string
  auditRefs :: "(string \<times> int) list"

record Config =
  settings :: settings
  passes :: "PassDefinition list option"
  audits :: "AuditDefinition list option"
  categories :: "CategoryDefinition list option"
  groups :: "string option"

record RunOpts =
  config :: Config
  url :: "string option"
  driverMock :: "string option"

record ArtifactsURL =
  requestedUrl :: string
  finalUrl :: string

record Artifacts =
  URL :: ArtifactsURL
  settings :: "settings option"
  fetchTime :: string
  HostUserAgent :: string
  NetworkUserAgent :: string
  BenchmarkIndex :: int
  LighthouseRunWarnings :: "string list option"
  gathered :: "string \<Rightarrow> string option"

record AuditResult =
  audit_id :: string
  score :: jsval
  details :: string

record CategoryScore =
  scored_id :: string
  category_score :: jsval

record LHREnvironment =
  networkUserAgent :: string
  hostUserAgent :: string
  benchmarkIndex :: int

record LHRi18n =
  rendererFormattedStrings :: string
  icuMessagePaths :: "(string \<times> string) list"

record LHR =
  userAgent :: string
  environment :: LHREnvironment
  lighthouseVersion :: string
  fetchTime :: string
  requestedUrl :: string
  finalUrl :: string
  runWarnings :: "string list"
  audits :: "string \<Rightarrow> AuditResult option"
  configSettings :: settings
  categories :: "string \<Rightarrow> CategoryScore option"
  categoryGroups :: "string option"
  timing_total :: int
  i18n :: LHRi18n

record RunnerResult =
  lhr :: LHR
  artifacts :: Artifacts
  report :: string

text \<open>The object built by \<^verbatim>\<open>instantiateComputedArtifacts\<close>: property name to the module
  whose instance's \<^verbatim>\<open>request\<close> is bound there.\<close>

type_synonym ComputedArtifacts = "string \<Rightarrow> string option"

record GatherOpts =
  settings :: settings
  connection :: Connection
  driverMock :: "string option"

record FullArtifacts =
  computed :: ComputedArtifacts
  base :: Artifacts

section \<open>Errors, collaborators and the trace of a run\<close>

text \<open>An error is either created by \<^verbatim>\<open>runner.js\<close> itself (\<^verbatim>\<open>new Error(message)\<close>) or
  raised by a collaborator and passed through.\<close>

datatype error = Error string | Collaborator string

definition MissingPassesConfig :: error where
  "MissingPassesConfig = Error ''No passes in config to run''"

text \<open>The message quotes the url that was provided; \<^verbatim>\<open>undefined\<close> prints as its name.\<close>

definition MissingTarget :: "string option \<Rightarrow> error" where
  "MissingTarget u = Error (''You must provide a url to the runner. '' @ [CHR 0x27]
     @ (case u of None \<Rightarrow> ''undefined'' | Some v \<Rightarrow> v) @ [CHR 0x27] @ '' provided.'')"

definition InvalidTarget :: error where
  "InvalidTarget = Error ''The url provided should have a proper protocol and hostname.''"

definition MissingAuditsConfig :: error where
  "MissingAuditsConfig = Error ''No audits in config to evaluate''"

definition TargetMismatch :: error where
  "TargetMismatch = Error ''Cannot run audit mode on different URL than gatherers were''"

definition SettingsMismatch :: error where
  "SettingsMismatch = Error ''Cannot change settings between gathering and auditing''"

datatype level = Fatal

text \<open>Every call that leaves \<^verbatim>\<open>runner.js\<close> is recorded, with its arguments, when it is
  made.\<close>

datatype event =
    CaptureBreadcrumb string
  | LoadArtifacts string
  | GatherRun string "PassDefinition list" GatherOpts
  | SaveArtifacts Artifacts string
  | AuditRun settings "AuditDefinition list" FullArtifacts
  | LogStatus string
  | ScoreAllCategories "CategoryDefinition list" "string \<Rightarrow> AuditResult option"
  | GetRendererFormattedStrings jsval
  | ReplaceIcuMessageInstanceIds LHR jsval
  | GenerateReport LHR jsval
  | CaptureException error level

text \<open>
  The modules that \<^verbatim>\<open>runner.js\<close> requires are parameters of the model. The collector,
  the store, the evaluator, the scorer, the localizer and the renderer may fail
  (\<open>Inl\<close> with the message of what they raise); \<^verbatim>\<open>new URL(u).href\<close> is \<open>None\<close> when the
  constructor throws. \<^verbatim>\<open>Sentry.captureException\<close> is awaited in the \<^verbatim>\<open>catch\<close> clause, so
  it may fail as well, and then what it raises leaves \<^verbatim>\<open>run\<close>. The breadcrumb of the
  telemetry sink, the logger, the clock, the path functions and the loading of the
  computed-artifact classes are taken not to raise.
  \<open>Date_now k\<close> is what the \<open>k\<close>-th reading of the clock returns. A run calls each
  collaborator once at most, so a function of the arguments stands for each.
\<close>

record Env =
  cwd :: string
  path_resolve :: "string \<Rightarrow> string \<Rightarrow> string"
  path_join :: "string \<Rightarrow> string \<Rightarrow> string"
  Date_now :: "nat \<Rightarrow> int"
  packageVersion :: string
  URL_href :: "string \<Rightarrow> string option"
  URL_equalWithExcludedFragments :: "string \<Rightarrow> string \<Rightarrow> bool"
  loadArtifacts :: "string \<Rightarrow> string + Artifacts"
  saveArtifacts :: "Artifacts \<Rightarrow> string \<Rightarrow> string + unit"
  GatherRunner_run :: "string \<Rightarrow> PassDefinition list \<Rightarrow> GatherOpts \<Rightarrow> string + Artifacts"
  AuditRunner_run :: "settings \<Rightarrow> AuditDefinition list \<Rightarrow> FullArtifacts
    \<Rightarrow> string + (AuditResult list \<times> string list)"
  getComputedGathererList :: "string list"
  computedArtifactName :: "string \<Rightarrow> string"
  scoreAllCategories :: "CategoryDefinition list \<Rightarrow> (string \<Rightarrow> AuditResult option)
    \<Rightarrow> string + (string \<Rightarrow> CategoryScore option)"
  getRendererFormattedStrings :: "jsval \<Rightarrow> string + string"
  replaceIcuMessageInstanceIds :: "LHR \<Rightarrow> jsval \<Rightarrow> string + (LHR \<times> (string \<times> string) list)"
  generateReport :: "LHR \<Rightarrow> jsval \<Rightarrow> string + string"
  captureException :: "error \<Rightarrow> level \<Rightarrow> string + unit"

text \<open>A computation returns a value or raises, and leaves the calls it made.\<close>

type_synonym 'a io = "(error + 'a) \<times> event list"

definition ret :: "'a \<Rightarrow> 'a io" where
  "ret x = (Inr x, [])"

definition throw :: "error \<Rightarrow> 'a io" where
  "throw e = (Inl e, [])"

definition bind :: "'a io \<Rightarrow> ('a \<Rightarrow> 'b io) \<Rightarrow> 'b io" where
  "bind m f = (case m of
       (Inl e, tr) \<Rightarrow> (Inl e, tr)
     | (Inr x, tr) \<Rightarrow> (case f x of (r, tr') \<Rightarrow> (r, tr @ tr')))"

definition call :: "event \<Rightarrow> string + 'a \<Rightarrow> 'a io" where
  "call ev r = ((case r of Inl m \<Rightarrow> Inl (Collaborator m) | Inr x \<Rightarrow> Inr x), [ev])"

definition tell :: "event \<Rightarrow> unit io" where
  "tell ev = (Inr (), [ev])"

section \<open>The runner\<close>

subsection \<open>\<^verbatim>\<open>_getArtifactsPath\<close>\<close>

definition getArtifactsPath :: "Env \<Rightarrow> settings \<Rightarrow> string" where
  "getArtifactsPath env s =
     (case auditMode s of
        JStr a \<Rightarrow> path_resolve env (cwd env) a
      | _ \<Rightarrow> (case gatherMode s of
          JStr g \<Rightarrow> path_resolve env (cwd env) g
        | _ \<Rightarrow> path_join env (cwd env) ''latest-run''))"

subsection \<open>\<^verbatim>\<open>gatherArtifacts\<close>\<close>

definition gatherArtifacts :: "Env \<Rightarrow> Connection \<Rightarrow> RunOpts \<Rightarrow> Artifacts io" where
  "gatherArtifacts env conn runOpts =
     (if \<not> shouldGather (Config.settings (config runOpts)) then
        (let path = getArtifactsPath env (Config.settings (config runOpts))
         in call (LoadArtifacts path) (loadArtifacts env path))
      else case passes (config runOpts) of
        None \<Rightarrow> throw MissingPassesConfig
      | Some ps \<Rightarrow>
        (case url runOpts of
           None \<Rightarrow> throw (MissingTarget None)
         | Some u \<Rightarrow>
           if length u = 0 then throw (MissingTarget (Some u))
           else (case URL_href env u of
              None \<Rightarrow> throw InvalidTarget
            | Some href \<Rightarrow>
              (let gatherOpts = \<lparr>GatherOpts.settings = Config.settings (config runOpts),
                     connection = conn, driverMock = RunOpts.driverMock runOpts\<rparr>
               in call (GatherRun href ps gatherOpts)
                    (GatherRunner_run env href ps gatherOpts)))))"

subsection \<open>\<^verbatim>\<open>instantiateComputedArtifacts\<close>\<close>

text \<open>\<^verbatim>\<open>filename.replace(/\.js$/, '')\<close>\<close>

definition drop_js :: "string \<Rightarrow> string" where
  "drop_js filename = (case rev filename of
       CHR ''s'' # CHR ''j'' # CHR ''.'' # r \<Rightarrow> rev r
     | _ \<Rightarrow> filename)"

definition instantiateComputedArtifacts :: "Env \<Rightarrow> ComputedArtifacts" where
  "instantiateComputedArtifacts env =
     foldl (\<lambda>computedArtifacts filename.
         (let file = drop_js filename; name = computedArtifactName env file
          in computedArtifacts(''request'' @ name \<mapsto> file)))
       Map.empty (getComputedGathererList env)"

subsection \<open>\<^verbatim>\<open>auditArtifacts\<close>\<close>

text \<open>\<^verbatim>\<open>Object.assign({}, s, {gatherMode: undefined, auditMode: undefined, output: undefined})\<close>\<close>

definition normalized :: "settings \<Rightarrow> settings" where
  "normalized s = s(''gatherMode'' \<mapsto> JUndefined, ''auditMode'' \<mapsto> JUndefined,
     ''output'' \<mapsto> JUndefined)"

text \<open>\<^verbatim>\<open>lodash.isequal\<close> on two flat objects: the same keys with the same values.\<close>

definition isDeepEqual :: "settings \<Rightarrow> settings \<Rightarrow> bool" where
  "isDeepEqual a b = (a = b)"

text \<open>\<^verbatim>\<open>runOpts.url && !URL.equalWithExcludedFragments(runOpts.url, requestedUrl)\<close>:
  \<^verbatim>\<open>undefined\<close> and the empty string are falsy, and then the comparison is not made.\<close>

definition urlMismatch :: "Env \<Rightarrow> string option \<Rightarrow> string \<Rightarrow> bool" where
  "urlMismatch env u requested =
     (case u of
        None \<Rightarrow> False
      | Some v \<Rightarrow> v \<noteq> [] \<and> \<not> URL_equalWithExcludedFragments env v requested)"

text \<open>Two settings objects differ on a field other than \<^verbatim>\<open>gatherMode\<close>, \<^verbatim>\<open>auditMode\<close> and
  \<^verbatim>\<open>output\<close>: the field is in one and not in the other, or its values differ.\<close>

definition differOutsideModes :: "settings \<Rightarrow> settings \<Rightarrow> bool" where
  "differOutsideModes a b
     = (\<exists>k. k \<notin> {''gatherMode'', ''auditMode'', ''output''} \<and> a k \<noteq> b k)"

text \<open>The call of the evaluator that ends \<^verbatim>\<open>auditArtifacts\<close>: \<^verbatim>\<open>AuditRunner.run\<close> gets the
  settings, the audits, the artifacts with the computed artifacts' request functions,
  and the (empty) list it pushes its warnings to; the results and that list come back.\<close>

definition evaluate ::
  "Env \<Rightarrow> Artifacts \<Rightarrow> Config \<Rightarrow> AuditDefinition list \<Rightarrow> (AuditResult list \<times> string list) io" where
  "evaluate env arts cfg ads =
     (let fullArtifacts = \<lparr>computed = instantiateComputedArtifacts env, base = arts\<rparr>
      in bind (call (AuditRun (Config.settings cfg) ads fullArtifacts)
                 (AuditRunner_run env (Config.settings cfg) ads fullArtifacts))
           (\<lambda>(auditResults, auditRunWarnings). ret (auditResults, auditRunWarnings)))"

definition auditArtifacts ::
  "Env \<Rightarrow> Artifacts \<Rightarrow> RunOpts \<Rightarrow> (AuditResult list \<times> string list) io" where
  "auditArtifacts env arts runOpts =
     (let cfg = config runOpts in
      case Config.audits cfg of
        None \<Rightarrow> throw MissingAuditsConfig
      | Some ads \<Rightarrow>
        if urlMismatch env (url runOpts) (ArtifactsURL.requestedUrl (URL arts))
        then throw TargetMismatch
        else if (case Artifacts.settings arts of
                   None \<Rightarrow> False
                 | Some gs \<Rightarrow> \<not> isDeepEqual (normalized gs) (normalized (Config.settings cfg)))
        then throw SettingsMismatch
        else evaluate env arts cfg ads)"

subsection \<open>\<^verbatim>\<open>run\<close>\<close>

text \<open>\<^verbatim>\<open>for (const audit of auditResults) resultsById[audit.id] = audit;\<close>\<close>

definition resultsById :: "AuditResult list \<Rightarrow> (string \<Rightarrow> AuditResult option)" where
  "resultsById auditResults = foldl (\<lambda>m audit. m(audit_id audit \<mapsto> audit)) Map.empty auditResults"

text \<open>The record literal of the report (\<^verbatim>\<open>const lhr = {...}\<close>), given what its fields
  read: the second reading of the clock and the renderer's strings.\<close>

definition assemble ::
  "Env \<Rightarrow> Config \<Rightarrow> Artifacts \<Rightarrow> (string \<Rightarrow> AuditResult option)
    \<Rightarrow> (string \<Rightarrow> CategoryScore option) \<Rightarrow> string list \<Rightarrow> int \<Rightarrow> string \<Rightarrow> LHR" where
  "assemble env cfg arts byId cats lighthouseRunWarnings startTime strings =
     \<lparr>userAgent = HostUserAgent arts,
      environment = \<lparr>networkUserAgent = NetworkUserAgent arts,
                     hostUserAgent = HostUserAgent arts,
                     benchmarkIndex = BenchmarkIndex arts\<rparr>,
      lighthouseVersion = packageVersion env,
      fetchTime = Artifacts.fetchTime arts,
      requestedUrl = ArtifactsURL.requestedUrl (URL arts),
      finalUrl = ArtifactsURL.finalUrl (URL arts),
      runWarnings = lighthouseRunWarnings,
      audits = byId,
      configSettings = Config.settings cfg,
      categories = cats,
      categoryGroups = groups cfg,
      timing_total = Date_now env 1 - startTime,
      i18n = \<lparr>rendererFormattedStrings = strings, icuMessagePaths = []\<rparr>\<rparr>"

text \<open>What follows the gather phase and the save, from \<^verbatim>\<open>// Audit phase\<close> to the
  \<^verbatim>\<open>return\<close>. The localizer replaces message references inside the record it is
  given; the model takes the record back from it, with the paths it replaced.\<close>

definition auditAndReport ::
  "Env \<Rightarrow> RunOpts \<Rightarrow> int \<Rightarrow> Artifacts \<Rightarrow> RunnerResult option io" where
  "auditAndReport env runOpts startTime arts =
     (let cfg = config runOpts; s = Config.settings cfg in
      bind (auditArtifacts env arts runOpts) (\<lambda>(auditResults, auditRunWarnings).
      bind (tell (LogStatus ''Generating results...'')) (\<lambda>_.
      let byId = resultsById auditResults in
      bind (case Config.categories cfg of
              None \<Rightarrow> ret Map.empty
            | Some cs \<Rightarrow> call (ScoreAllCategories cs byId) (scoreAllCategories env cs byId))
        (\<lambda>cats.
      let lighthouseRunWarnings = [] @ auditRunWarnings
            @ (case LighthouseRunWarnings arts of None \<Rightarrow> [] | Some ws \<Rightarrow> ws);
          locale = get_field s ''locale'' in
      bind (call (GetRendererFormattedStrings locale) (getRendererFormattedStrings env locale))
        (\<lambda>strings.
      let lhr0 = assemble env cfg arts byId cats lighthouseRunWarnings startTime strings in
      bind (call (ReplaceIcuMessageInstanceIds lhr0 locale)
              (replaceIcuMessageInstanceIds env lhr0 locale))
        (\<lambda>(lhr1, paths).
      let lhr2 = lhr1\<lparr>i18n := (i18n lhr1)\<lparr>icuMessagePaths := paths\<rparr>\<rparr>;
          output = get_field s ''output'' in
      bind (call (GenerateReport lhr2 output) (generateReport env lhr2 output))
        (\<lambda>rendered.
      ret (Some \<lparr>lhr = lhr2, artifacts = arts, report = rendered\<rparr>))))))))"

text \<open>\<^verbatim>\<open>if (settings.gatherMode) { await assetSaver.saveArtifacts(artifacts, path); }\<close>\<close>

definition saveStep :: "Env \<Rightarrow> settings \<Rightarrow> Artifacts \<Rightarrow> unit io" where
  "saveStep env s arts =
     (if truthy (gatherMode s)
      then (let path = getArtifactsPath env s
            in call (SaveArtifacts arts path) (saveArtifacts env arts path))
      else ret ())"

text \<open>The body of the \<^verbatim>\<open>try\<close> block; \<^verbatim>\<open>return;\<close> is \<open>None\<close>.\<close>

definition run_try :: "Env \<Rightarrow> Connection \<Rightarrow> RunOpts \<Rightarrow> RunnerResult option io" where
  "run_try env conn runOpts =
     (let cfg = config runOpts; s = Config.settings cfg; startTime = Date_now env 0 in
      bind (tell (CaptureBreadcrumb ''Run started'')) (\<lambda>_.
      bind (gatherArtifacts env conn runOpts) (\<lambda>arts.
      bind (saveStep env s arts) (\<lambda>_.
      if \<not> shouldAudit s then ret None
      else auditAndReport env runOpts startTime arts))))"

text \<open>\<^verbatim>\<open>await Sentry.captureException(err, {level: 'fatal'}); throw err;\<close> What leaves the
  \<^verbatim>\<open>catch\<close> clause: \<^verbatim>\<open>err\<close> once the awaited call has resolved, and what the sink raised
  when it has not.\<close>

definition rethrown :: "Env \<Rightarrow> error \<Rightarrow> error + 'a" where
  "rethrown env err =
     (case captureException env err Fatal of
        Inl m \<Rightarrow> Inl (Collaborator m)
      | Inr u \<Rightarrow> Inl err)"

text \<open>\<^verbatim>\<open>try { ... } catch (err) { ... }\<close>\<close>

definition run :: "Env \<Rightarrow> Connection \<Rightarrow> RunOpts \<Rightarrow> RunnerResult option io" where
  "run env conn runOpts =
     (case run_try env conn runOpts of
        (Inl err, tr) \<Rightarrow> (rethrown env err, tr @ [CaptureException err Fatal])
      | (Inr r, tr) \<Rightarrow> (Inr r, tr))"

section \<open>Reading a trace\<close>

text \<open>The step of the pipeline a recorded call belongs to.\<close>

datatype step = Telemetry | Collecting | Persisting | Evaluating | Reporting

fun step_of :: "event \<Rightarrow> step" where
  "step_of (CaptureBreadcrumb _) = Telemetry"
| "step_of (CaptureException _ _) = Telemetry"
| "step_of (LoadArtifacts _) = Collecting"
| "step_of (GatherRun _ _ _) = Collecting"
| "step_of (SaveArtifacts _ _) = Persisting"
| "step_of (AuditRun _ _ _) = Evaluating"
| "step_of (LogStatus _) = Reporting"
| "step_of (ScoreAllCategories _ _) = Reporting"
| "step_of (GetRendererFormattedStrings _) = Reporting"
| "step_of (ReplaceIcuMessageInstanceIds _ _) = Reporting"
| "step_of (GenerateReport _ _) = Reporting"

fun isCaptureException :: "event \<Rightarrow> bool" where
  "isCaptureException (CaptureException _ _) = True"
| "isCaptureException _ = False"

fun isSaveArtifacts :: "event \<Rightarrow> bool" where
  "isSaveArtifacts (SaveArtifacts _ _) = True"
| "isSaveArtifacts _ = False"

fun isGatherRun :: "event \<Rightarrow> bool" where
  "isGatherRun (GatherRun _ _ _) = True"
| "isGatherRun _ = False"

fun isAuditRun :: "event \<Rightarrow> bool" where
  "isAuditRun (AuditRun _ _ _) = True"
| "isAuditRun _ = False"

section \<open>Collaborators described by the specification only\<close>

text \<open>Modelled from the spec: \<^verbatim>\<open>URL.equalWithExcludedFragments\<close> of \<^verbatim>\<open>lib/url-shim.js\<close> is
  not among the sources. The specification calls it an equality that ignores URL
  fragment differences; the fragment of a url is its first \<^verbatim>\<open>#\<close> and what follows.\<close>

definition withoutFragment :: "string \<Rightarrow> string" where
  "withoutFragment u = takeWhile (\<lambda>c. c \<noteq> CHR ''#'') u"

text \<open>Modelled from the spec: the comparison of two urls after their fragments are
  dropped, for the missing \<^verbatim>\<open>URL.equalWithExcludedFragments\<close>.\<close>

definition equalWithExcludedFragments :: "string \<Rightarrow> string \<Rightarrow> bool" where
  "equalWithExcludedFragments a b = (withoutFragment a = withoutFragment b)"

text \<open>A fragment, when there is one, starts with \<^verbatim>\<open>#\<close>.\<close>

definition isFragment :: "string \<Rightarrow> bool" where
  "isFragment f = (case f of [] \<Rightarrow> True | c # _ \<Rightarrow> c = CHR ''#'')"

text \<open>Modelled from the spec: the \<^verbatim>\<open>request\<close> method that \<^verbatim>\<open>instantiateComputedArtifacts\<close>
  binds, of the computed-artifact classes under \<^verbatim>\<open>gather/computed/\<close>, is not among the
  sources. The specification gives it three cases for a name: a computation that has
  completed returns its cached outcome; one in flight returns the same promise; else
  the computation is started and its promise cached at once, before it settles. A
  promise is a position in the list of promises of the run; every execution of a
  compute function and every promise handed to a caller is recorded.\<close>

datatype outcome = Resolved string | Rejected string

datatype promise = Pending | Settled outcome

record Registry =
  requestFunctions :: ComputedArtifacts
  cached :: "string \<Rightarrow> nat option"
  promises :: "promise list"
  computeCalls :: "string list"
  handedOut :: "(string \<times> nat) list"

text \<open>Modelled from the spec: one registry for each run, with nothing cached.\<close>

definition newRegistry :: "ComputedArtifacts \<Rightarrow> Registry" where
  "newRegistry ca = \<lparr>requestFunctions = ca, cached = Map.empty, promises = [],
     computeCalls = [], handedOut = []\<rparr>"

text \<open>Modelled from the spec: \<^verbatim>\<open>request(name)\<close>. A name with no request function bound has
  nothing to call.\<close>

definition request :: "string \<Rightarrow> Registry \<Rightarrow> Registry" where
  "request name reg =
     (case requestFunctions reg (''request'' @ name) of
        None \<Rightarrow> reg
      | Some file \<Rightarrow>
        (case cached reg name of
           Some p \<Rightarrow> reg\<lparr>handedOut := handedOut reg @ [(name, p)]\<rparr>
         | None \<Rightarrow>
           (let p = length (promises reg)
            in reg\<lparr>cached := (cached reg)(name \<mapsto> p),
                   promises := promises reg @ [Pending],
                   computeCalls := computeCalls reg @ [name],
                   handedOut := handedOut reg @ [(name, p)]\<rparr>)))"

text \<open>Modelled from the spec: the computation for a name settles, with a value or a
  failure; the outcome is final.\<close>

definition settle :: "string \<Rightarrow> outcome \<Rightarrow> Registry \<Rightarrow> Registry" where
  "settle name out reg =
     (case cached reg name of
        None \<Rightarrow> reg
      | Some p \<Rightarrow>
        if p < length (promises reg) \<and> promises reg ! p = Pending
        then reg\<lparr>promises := (promises reg)[p := Settled out]\<rparr>
        else reg)"

text \<open>Modelled from the spec: what can happen to a registry during a run, in any order:
  a caller requests a name, or a computation in flight settles.\<close>

datatype registry_event = Request string | Settle string outcome

fun happen :: "Registry \<Rightarrow> registry_event \<Rightarrow> Registry" where
  "happen reg (Request name) = request name reg"
| "happen reg (Settle name out) = settle name out reg"

definition after :: "registry_event list \<Rightarrow> Registry \<Rightarrow> Registry" where
  "after evs reg = foldl happen reg evs"

text \<open>What the proofs keep about a registry: no name was computed twice, the computed
  names are the cached ones, and every promise handed out for a name is the one cached
  for it, which exists.\<close>

definition consistent :: "Registry \<Rightarrow> bool" where
  "consistent reg =
     (distinct (computeCalls reg)
      \<and> set (computeCalls reg) = dom (cached reg)
      \<and> (\<forall>np\<in>set (handedOut reg). cached reg (fst np) = Some (snd np))
      \<and> (\<forall>n p. cached reg n = Some p \<longrightarrow> p < length (promises reg)))"

section \<open>The stages of a run, for stating what it does\<close>

text \<open>\<^verbatim>\<open>artifacts.LighthouseRunWarnings || []\<close>\<close>

definition collectionWarnings :: "Artifacts \<Rightarrow> string list" where
  "collectionWarnings arts = (case LighthouseRunWarnings arts of None \<Rightarrow> [] | Some ws \<Rightarrow> ws)"

text \<open>The categories of the report are \<open>cats\<close>: what the scorer returned for
  \<^verbatim>\<open>config.categories\<close> and the results by id, and \<^verbatim>\<open>{}\<close> when there are no categories.\<close>

definition scored ::
  "Env \<Rightarrow> RunOpts \<Rightarrow> AuditResult list \<Rightarrow> (string \<Rightarrow> CategoryScore option) \<Rightarrow> bool" where
  "scored env opts rs cats =
     (case Config.categories (config opts) of
        None \<Rightarrow> cats = Map.empty
      | Some cs \<Rightarrow> scoreAllCategories env cs (resultsById rs) = Inr cats)"

text \<open>The record that \<^verbatim>\<open>run\<close> assembles and hands to the localizer, from the artifacts,
  the evaluator's results \<open>rs\<close> and warnings \<open>ws\<close>, the categories and the renderer's
  strings.\<close>

definition assembled ::
  "Env \<Rightarrow> RunOpts \<Rightarrow> Artifacts \<Rightarrow> AuditResult list \<Rightarrow> string list
    \<Rightarrow> (string \<Rightarrow> CategoryScore option) \<Rightarrow> string \<Rightarrow> LHR" where
  "assembled env opts arts rs ws cats strings =
     assemble env (config opts) arts (resultsById rs) cats ([] @ ws @ collectionWarnings arts)
       (Date_now env 0) strings"

text \<open>\<^verbatim>\<open>lhr.i18n.icuMessagePaths = i18n.replaceIcuMessageInstanceIds(lhr, locale)\<close>: the
  record as the localizer left it, with the paths it replaced.\<close>

definition localized :: "LHR \<Rightarrow> (string \<times> string) list \<Rightarrow> LHR" where
  "localized lhr1 paths = lhr1\<lparr>i18n := (i18n lhr1)\<lparr>icuMessagePaths := paths\<rparr>\<rparr>"

text \<open>An error of the \<^verbatim>\<open>try\<close> block is reported and raised: the \<^verbatim>\<open>try\<close> block raises
  \<open>err\<close>; the run ends with the one call of \<^verbatim>\<open>Sentry.captureException\<close> in its trace,
  made with \<open>err\<close> and the level \<^verbatim>\<open>fatal\<close>; and the run raises what the \<^verbatim>\<open>catch\<close> clause
  gives for \<open>err\<close>.\<close>

definition raisedAndReported :: "Env \<Rightarrow> Connection \<Rightarrow> RunOpts \<Rightarrow> error \<Rightarrow> bool" where
  "raisedAndReported env conn opts err =
     (fst (run_try env conn opts) = Inl err
      \<and> fst (run env conn opts) = rethrown env err
      \<and> snd (run env conn opts) = snd (run_try env conn opts) @ [CaptureException err Fatal]
      \<and> filter isCaptureException (snd (run env conn opts)) = [CaptureException err Fatal])"

text \<open>The report a run returns, if it returns one.\<close>

definition reportOf :: "RunnerResult option io \<Rightarrow> LHR option" where
  "reportOf r = (case fst r of Inr (Some res) \<Rightarrow> Some (lhr res) | _ \<Rightarrow> None)"

section \<open>What a run expects of its collaborators\<close>

text \<open>\<^verbatim>\<open>ReportScoring.scoreAllCategories\<close> of \<^verbatim>\<open>scoring.js\<close> is a parameter; the specification
  describes its result as a mapping from category id to a score record: every
  category it is given has a record in what it returns.\<close>

definition scoresEveryCategory :: "Env \<Rightarrow> bool" where
  "scoresEveryCategory env =
     (\<forall>cs byId cats c.
        scoreAllCategories env cs byId = Inr cats \<and> c \<in> set cs \<longrightarrow>
          cats (category_id c) \<noteq> None)"

section \<open>A concrete environment\<close>

text \<open>Collaborators that always succeed, for running the model on examples: the collector
  returns \<open>artifacts0\<close>, the evaluator one result \<^verbatim>\<open>{id: 'auditA', score: 1}\<close> and one
  warning, the scorer one record for each category, the localizer finds nothing to
  replace. Its urls are canonical once they end in a slash.\<close>

definition settings0 :: settings where
  "settings0 = [''locale'' \<mapsto> JStr ''en'', ''output'' \<mapsto> JStr ''json'',
     ''gatherMode'' \<mapsto> JBool False, ''auditMode'' \<mapsto> JBool False]"

definition artifacts0 :: Artifacts where
  "artifacts0 = \<lparr>URL = \<lparr>ArtifactsURL.requestedUrl = ''http://example.com/'',
                         ArtifactsURL.finalUrl = ''http://example.com/''\<rparr>,
     Artifacts.settings = None, Artifacts.fetchTime = ''2018-01-01'', HostUserAgent = ''host'',
     NetworkUserAgent = ''network'', BenchmarkIndex = 1000,
     LighthouseRunWarnings = Some [''slow page''], gathered = Map.empty\<rparr>"

definition auditA :: AuditResult where
  "auditA = \<lparr>audit_id = ''auditA'', score = JNum 1, details = []\<rparr>"

definition scoreEach :: "CategoryDefinition list \<Rightarrow> (string \<Rightarrow> CategoryScore option)" where
  "scoreEach cs = map_of (map (\<lambda>c. (category_id c,
       \<lparr>scored_id = category_id c, category_score = JNum 1\<rparr>)) cs)"

definition href0 :: "string \<Rightarrow> string option" where
  "href0 u = (if u = ''http://example.com'' then Some ''http://example.com/''
              else if take 7 u = ''http://'' then Some u else None)"

definition env0 :: Env where
  "env0 = \<lparr>cwd = ''/work'',
     path_resolve = (\<lambda>a b. a @ ''/'' @ b),
     path_join = (\<lambda>a b. a @ ''/'' @ b),
     Date_now = (\<lambda>k. 1000 + int k),
     packageVersion = ''3.0.0'',
     URL_href = href0,
     URL_equalWithExcludedFragments = (\<lambda>a b. case (href0 a, href0 b) of
         (Some x, Some y) \<Rightarrow> equalWithExcludedFragments x y
       | _ \<Rightarrow> False),
     loadArtifacts = (\<lambda>path. Inr artifacts0),
     saveArtifacts = (\<lambda>arts path. Inr ()),
     GatherRunner_run = (\<lambda>href ps gatherOpts. Inr artifacts0),
     AuditRunner_run = (\<lambda>s ads fullArtifacts. Inr ([auditA], [''audit warning''])),
     getComputedGathererList = [''speedline.js''],
     computedArtifactName = (\<lambda>file. ''Speedline''),
     scoreAllCategories = (\<lambda>cs byId. Inr (scoreEach cs)),
     getRendererFormattedStrings = (\<lambda>locale. Inr ''strings''),
     replaceIcuMessageInstanceIds = (\<lambda>lhr locale. Inr (lhr, [])),
     generateReport = (\<lambda>lhr output. Inr ''report''),
     captureException = (\<lambda>err lvl. Inr ())\<rparr>"

text \<open>The same, with a clock that is set back during the run and a localizer that
  replaces the collection warning, a message reference, by its text in the locale.\<close>

definition env1 :: Env where
  "env1 = env0\<lparr>Date_now := (\<lambda>k. 1000 - int k),
     replaceIcuMessageInstanceIds := (\<lambda>lhr locale.
       Inr (lhr\<lparr>runWarnings :=
               map (\<lambda>w. if w = ''slow page'' then ''Seite langsam'' else w) (runWarnings lhr)\<rparr>,
            [(''slow page'', ''runWarnings[1]'')]))\<rparr>"

definition config0 :: Config where
  "config0 = \<lparr>Config.settings = settings0, passes = Some [''defaultPass''],
     Config.audits = Some [''auditA''],
     Config.categories = Some [\<lparr>category_id = ''cat1'', auditRefs = [(''auditA'', 1)]\<rparr>],
     groups = None\<rparr>"

definition runOpts0 :: RunOpts where
  "runOpts0 = \<lparr>config = config0, url = Some ''http://example.com'',
     RunOpts.driverMock = None\<rparr>"

section \<open>Claims about mode dispatch\<close>

lemma shouldGather_iff:
  "shouldGather s = (truthy (gatherMode s) \<or> gatherMode s = auditMode s)"
  by (simp add: shouldGather_def js_or_def strict_eq_def)

lemma shouldAudit_iff:
  "shouldAudit s = (truthy (auditMode s) \<or> gatherMode s = auditMode s)"
  by (simp add: shouldAudit_def js_or_def strict_eq_def)

text \<open>
  Claim C1, as stated, at an empty path string: with \<^verbatim>\<open>gatherMode = ''\<close> and
  \<^verbatim>\<open>auditMode = false\<close> the flag \<^verbatim>\<open>gatherMode\<close> is a string and \<^verbatim>\<open>auditMode\<close> is unset,
  yet \<^verbatim>\<open>shouldGather\<close> is false, because the empty string is falsy.
\<close>

theorem C1_empty_string_counterexample:
  "gatherMode [''gatherMode'' \<mapsto> JStr [], ''auditMode'' \<mapsto> JBool False] = JStr []
   \<and> auditMode [''gatherMode'' \<mapsto> JStr [], ''auditMode'' \<mapsto> JBool False] = JBool False
   \<and> \<not> shouldGather [''gatherMode'' \<mapsto> JStr [], ''auditMode'' \<mapsto> JBool False]"
  by (simp add: shouldGather_def js_or_def strict_eq_def gatherMode_def auditMode_def get_field_def)

text \<open>
  Claim C1, amended: for every settings object, \<^verbatim>\<open>shouldGather\<close> is true exactly when
  \<^verbatim>\<open>gatherMode\<close> is truthy or \<^verbatim>\<open>gatherMode === auditMode\<close>, and \<^verbatim>\<open>shouldAudit\<close> is true
  exactly when \<^verbatim>\<open>auditMode\<close> is truthy or \<^verbatim>\<open>gatherMode === auditMode\<close>. In particular,
  when both flags are unset (both absent or both \<^verbatim>\<open>false\<close>) both are true; when
  \<^verbatim>\<open>gatherMode\<close> is a non-empty string and \<^verbatim>\<open>auditMode\<close> is unset, \<^verbatim>\<open>shouldGather\<close> is
  true and \<^verbatim>\<open>shouldAudit\<close> is false; when \<^verbatim>\<open>auditMode\<close> is \<^verbatim>\<open>true\<close> and \<^verbatim>\<open>gatherMode\<close> is
  unset, \<^verbatim>\<open>shouldGather\<close> is false and \<^verbatim>\<open>shouldAudit\<close> is true.
\<close>

theorem C1_mode_dispatch:
  "shouldGather s = (truthy (gatherMode s) \<or> gatherMode s = auditMode s)
   \<and> shouldAudit s = (truthy (auditMode s) \<or> gatherMode s = auditMode s)
   \<and> (unset (gatherMode s) \<and> gatherMode s = auditMode s
        \<longrightarrow> shouldGather s \<and> shouldAudit s)
   \<and> (gatherMode s = JStr p \<and> p \<noteq> [] \<and> unset (auditMode s)
        \<longrightarrow> shouldGather s \<and> \<not> shouldAudit s)
   \<and> (auditMode s = JBool True \<and> unset (gatherMode s)
        \<longrightarrow> \<not> shouldGather s \<and> shouldAudit s)"
  unfolding shouldGather_iff shouldAudit_iff unset_def by auto

theorem C1_mode_dispatch_witness:
  "shouldGather Map.empty \<and> shouldAudit Map.empty
   \<and> shouldGather [''gatherMode'' \<mapsto> JBool False, ''auditMode'' \<mapsto> JBool False]
   \<and> shouldAudit [''gatherMode'' \<mapsto> JBool False, ''auditMode'' \<mapsto> JBool False]
   \<and> shouldGather [''gatherMode'' \<mapsto> JStr ''./out'']
   \<and> \<not> shouldAudit [''gatherMode'' \<mapsto> JStr ''./out'']
   \<and> \<not> shouldGather [''auditMode'' \<mapsto> JBool True]
   \<and> shouldAudit [''auditMode'' \<mapsto> JBool True]"
  using C1_mode_dispatch [of Map.empty]
    C1_mode_dispatch [of "[''gatherMode'' \<mapsto> JBool False, ''auditMode'' \<mapsto> JBool False]"]
    C1_mode_dispatch [of "[''gatherMode'' \<mapsto> JStr ''./out'']" "''./out''"]
    C1_mode_dispatch [of "[''auditMode'' \<mapsto> JBool True]"]
  by (simp add: unset_def gatherMode_def auditMode_def get_field_def)


section \<open>Facts about the trace-keeping computations\<close>

lemma bind_Inl [simp]: "bind (Inl e, tr) f = (Inl e, tr)"
  by (simp add: bind_def)

lemma bind_Inr [simp]: "bind (Inr x, tr) f = (fst (f x), tr @ snd (f x))"
  by (simp add: bind_def split: prod.splits)

lemma bind_throw [simp]: "bind (throw e) f = throw e"
  by (simp add: throw_def)

lemma bind_ret [simp]: "bind (ret x) f = f x"
  by (simp add: ret_def)

lemma bind_ret_right [simp]: "bind m ret = m"
  by (cases m) (auto simp: bind_def ret_def split: sum.splits)

lemma bind_tell [simp]: "bind (tell ev) f = (fst (f ()), ev # snd (f ()))"
  by (simp add: tell_def)

lemma snd_call [simp]: "snd (call ev r) = [ev]"
  by (simp add: call_def)

lemma fst_call_not_Error [simp]: "fst (call ev r) \<noteq> Inl (Error m)"
  by (simp add: call_def split: sum.splits)

lemma fst_call_Inr [simp]: "(fst (call ev r) = Inr x) = (r = Inr x)"
  by (simp add: call_def split: sum.splits)

lemma call_Inr [simp]: "call ev (Inr x) = (Inr x, [ev])"
  by (simp add: call_def)

lemma call_Inl [simp]: "call ev (Inl m) = (Inl (Collaborator m), [ev])"
  by (simp add: call_def)

lemma fst_bind: "fst (bind m f) = (case fst m of Inl e \<Rightarrow> Inl e | Inr x \<Rightarrow> fst (f x))"
  by (cases m) (simp add: bind_def split: sum.splits prod.splits)

lemma snd_bind: "snd (bind m f) = (case fst m of Inl e \<Rightarrow> snd m | Inr x \<Rightarrow> snd m @ snd (f x))"
  by (cases m) (simp add: bind_def split: sum.splits prod.splits)

lemma runner_errors_distinct [simp]:
  "MissingAuditsConfig \<noteq> TargetMismatch" "MissingAuditsConfig \<noteq> SettingsMismatch"
  "TargetMismatch \<noteq> SettingsMismatch" "TargetMismatch \<noteq> MissingAuditsConfig"
  "SettingsMismatch \<noteq> MissingAuditsConfig" "SettingsMismatch \<noteq> TargetMismatch"
  by (simp_all add: MissingAuditsConfig_def TargetMismatch_def SettingsMismatch_def)

section \<open>The guards of the audit phase\<close>

lemma normalized_eq_iff: "(normalized a = normalized b) = (\<not> differOutsideModes a b)"
proof
  assume eq: "normalized a = normalized b"
  have "a k = b k" if k: "k \<notin> {''gatherMode'', ''auditMode'', ''output''}" for k
  proof -
    from eq have "normalized a k = normalized b k" by simp
    with k show "a k = b k" by (simp add: normalized_def)
  qed
  then show "\<not> differOutsideModes a b"
    unfolding differOutsideModes_def by blast
next
  assume agree: "\<not> differOutsideModes a b"
  show "normalized a = normalized b"
  proof (rule ext)
    fix k
    from agree have "k \<in> {''gatherMode'', ''auditMode'', ''output''} \<or> a k = b k"
      unfolding differOutsideModes_def by blast
    then show "normalized a k = normalized b k"
      by (auto simp: normalized_def)
  qed
qed

lemma evaluate_call:
  "evaluate env arts cfg ads =
     call (AuditRun (Config.settings cfg) ads
             \<lparr>computed = instantiateComputedArtifacts env, base = arts\<rparr>)
       (AuditRunner_run env (Config.settings cfg) ads
             \<lparr>computed = instantiateComputedArtifacts env, base = arts\<rparr>)"
  by (simp add: evaluate_def Let_def)

lemma fst_evaluate_not_Error [simp]: "fst (evaluate env arts cfg ads) \<noteq> Inl (Error m)"
  by (simp add: evaluate_call)

lemma snd_evaluate: "snd (evaluate env arts cfg ads)
   = [AuditRun (Config.settings cfg) ads \<lparr>computed = instantiateComputedArtifacts env, base = arts\<rparr>]"
  by (simp add: evaluate_call)

lemma auditArtifacts_cases:
  "auditArtifacts env arts opts =
     (case Config.audits (config opts) of
        None \<Rightarrow> (Inl MissingAuditsConfig, [])
      | Some ads \<Rightarrow>
        if urlMismatch env (url opts) (ArtifactsURL.requestedUrl (URL arts))
        then (Inl TargetMismatch, [])
        else if (case Artifacts.settings arts of None \<Rightarrow> False
                 | Some gs \<Rightarrow> differOutsideModes gs (Config.settings (config opts)))
        then (Inl SettingsMismatch, [])
        else evaluate env arts (config opts) ads)"
proof -
  have guard: "(case Artifacts.settings arts of None \<Rightarrow> False
        | Some gs \<Rightarrow> \<not> isDeepEqual (normalized gs) (normalized (Config.settings (config opts))))
     = (case Artifacts.settings arts of None \<Rightarrow> False
        | Some gs \<Rightarrow> differOutsideModes gs (Config.settings (config opts)))"
    by (cases "Artifacts.settings arts") (simp_all add: isDeepEqual_def normalized_eq_iff)
  show ?thesis
    unfolding auditArtifacts_def Let_def guard
    by (cases "Config.audits (config opts)") (simp_all add: throw_def)
qed

text \<open>
  Claim C2: in the audit phase, once the audits are there and the url guard has passed,
  the settings check is passed at once when \<^verbatim>\<open>artifacts.settings\<close> is absent; when it is
  present, \<^verbatim>\<open>auditArtifacts\<close> raises the settings-mismatch error (before the evaluator is
  called) exactly when the recorded and the current settings differ on a field other
  than \<^verbatim>\<open>gatherMode\<close>, \<^verbatim>\<open>auditMode\<close> and \<^verbatim>\<open>output\<close>, and goes on to the evaluator exactly
  when they differ in those three at most; the evaluator cannot raise that error.
\<close>

theorem C2_settings_guard:
  assumes "Config.audits (config opts) = Some ads"
    and "\<not> urlMismatch env (url opts) (ArtifactsURL.requestedUrl (URL arts))"
  shows "(Artifacts.settings arts = None
            \<longrightarrow> auditArtifacts env arts opts = evaluate env arts (config opts) ads)
       \<and> (Artifacts.settings arts = Some gs \<longrightarrow>
            (auditArtifacts env arts opts = (Inl SettingsMismatch, []))
              = differOutsideModes gs (Config.settings (config opts))
          \<and> (auditArtifacts env arts opts = evaluate env arts (config opts) ads)
              = (\<not> differOutsideModes gs (Config.settings (config opts))))
       \<and> fst (evaluate env arts (config opts) ads) \<noteq> Inl SettingsMismatch"
proof -
  have ev: "fst (evaluate env arts (config opts) ads) \<noteq> Inl SettingsMismatch"
    by (simp add: SettingsMismatch_def)
  then have neq: "evaluate env arts (config opts) ads \<noteq> (Inl SettingsMismatch, [])"
    by auto
  show ?thesis
  proof (cases "Artifacts.settings arts")
    case None
    with assms ev show ?thesis by (simp add: auditArtifacts_cases)
  next
    case (Some gs')
    with assms ev neq show ?thesis
      by (cases "differOutsideModes gs' (Config.settings (config opts))")
         (simp_all add: auditArtifacts_cases neq [symmetric])
  qed
qed

theorem C2_settings_guard_witness:
  "auditArtifacts env0 artifacts0 runOpts0 = evaluate env0 artifacts0 config0 [''auditA'']
   \<and> auditArtifacts env0
        (artifacts0\<lparr>Artifacts.settings :=
           Some (settings0(''gatherMode'' \<mapsto> JStr ''./out'', ''output'' \<mapsto> JStr ''html''))\<rparr>)
        runOpts0
      = evaluate env0
        (artifacts0\<lparr>Artifacts.settings :=
           Some (settings0(''gatherMode'' \<mapsto> JStr ''./out'', ''output'' \<mapsto> JStr ''html''))\<rparr>)
        config0 [''auditA'']
   \<and> auditArtifacts env0
        (artifacts0\<lparr>Artifacts.settings :=
           Some (settings0(''throttlingMethod'' \<mapsto> JStr ''devtools''))\<rparr>)
        runOpts0
      = (Inl SettingsMismatch, [])"
proof -
  let ?mode = "settings0(''gatherMode'' \<mapsto> JStr ''./out'', ''output'' \<mapsto> JStr ''html'')"
  let ?other = "settings0(''throttlingMethod'' \<mapsto> JStr ''devtools'')"
  have audits: "Config.audits (config runOpts0) = Some [''auditA'']"
    by (simp add: runOpts0_def config0_def)
  have target: "\<not> urlMismatch env0 (url runOpts0)
      (ArtifactsURL.requestedUrl (URL (artifacts0\<lparr>Artifacts.settings := s\<rparr>)))" for s
    by (simp add: urlMismatch_def env0_def href0_def runOpts0_def artifacts0_def
        equalWithExcludedFragments_def withoutFragment_def)
  have target0: "\<not> urlMismatch env0 (url runOpts0) (ArtifactsURL.requestedUrl (URL artifacts0))"
    by (simp add: urlMismatch_def env0_def href0_def runOpts0_def artifacts0_def
        equalWithExcludedFragments_def withoutFragment_def)
  have same: "\<not> differOutsideModes ?mode settings0"
    by (simp add: differOutsideModes_def)
  have other: "differOutsideModes ?other settings0"
    unfolding differOutsideModes_def
    by (rule exI [of _ "''throttlingMethod''"]) (simp add: settings0_def)
  have cfg: "config runOpts0 = config0" "Config.settings config0 = settings0"
    by (simp_all add: runOpts0_def config0_def)
  have a: "auditArtifacts env0 artifacts0 runOpts0 = evaluate env0 artifacts0 config0 [''auditA'']"
    using C2_settings_guard [where opts = runOpts0 and env = env0 and arts = artifacts0,
        OF audits target0]
    by (simp add: cfg artifacts0_def)
  have b: "auditArtifacts env0 (artifacts0\<lparr>Artifacts.settings := Some ?mode\<rparr>) runOpts0
      = evaluate env0 (artifacts0\<lparr>Artifacts.settings := Some ?mode\<rparr>) config0 [''auditA'']"
    using C2_settings_guard [where opts = runOpts0 and env = env0 and gs = ?mode
        and arts = "artifacts0\<lparr>Artifacts.settings := Some ?mode\<rparr>", OF audits target] same
    by (simp add: cfg)
  have c: "auditArtifacts env0 (artifacts0\<lparr>Artifacts.settings := Some ?other\<rparr>) runOpts0
      = (Inl SettingsMismatch, [])"
    using C2_settings_guard [where opts = runOpts0 and env = env0 and gs = ?other
        and arts = "artifacts0\<lparr>Artifacts.settings := Some ?other\<rparr>", OF audits target] other
    by (simp add: cfg)
  from a b c show ?thesis by blast
qed

lemma withoutFragment_append:
  "CHR ''#'' \<notin> set p \<Longrightarrow> isFragment f \<Longrightarrow> withoutFragment (p @ f) = p"
  by (cases f) (auto simp: withoutFragment_def isFragment_def takeWhile_append)

text \<open>
  Claim C3: with the url comparison the specification describes, and the audits there:
  when a (non-empty) url was supplied, \<^verbatim>\<open>auditArtifacts\<close> raises the target-mismatch
  error, before anything else is called, exactly when the supplied and the recorded
  url differ in what precedes their fragments; so two urls \<open>p @ f\<close> and \<open>q @ g\<close> with
  fragments \<open>f\<close> and \<open>g\<close> are rejected exactly when \<open>p \<noteq> q\<close>. When no url was supplied
  (\<^verbatim>\<open>undefined\<close>, or the empty string, which is falsy) the check is skipped.
\<close>

theorem C3_target_guard:
  assumes "Config.audits (config opts) = Some ads"
    and "URL_equalWithExcludedFragments env = equalWithExcludedFragments"
  shows "(url opts = Some u \<and> u \<noteq> [] \<longrightarrow>
            (auditArtifacts env arts opts = (Inl TargetMismatch, []))
              = (withoutFragment u \<noteq> withoutFragment (ArtifactsURL.requestedUrl (URL arts))))
       \<and> (url opts = Some (p @ f) \<and> p @ f \<noteq> [] \<and> CHR ''#'' \<notin> set p \<and> isFragment f
            \<and> ArtifactsURL.requestedUrl (URL arts) = q @ g \<and> CHR ''#'' \<notin> set q \<and> isFragment g
            \<longrightarrow> (auditArtifacts env arts opts = (Inl TargetMismatch, [])) = (p \<noteq> q))
       \<and> (url opts = None \<or> url opts = Some []
            \<longrightarrow> fst (auditArtifacts env arts opts) \<noteq> Inl TargetMismatch)"
proof -
  have ev: "fst (evaluate env arts (config opts) ads) \<noteq> Inl TargetMismatch"
    by (simp add: TargetMismatch_def)
  then have neq: "evaluate env arts (config opts) ads \<noteq> (Inl TargetMismatch, [])"
    by auto
  have general: "(auditArtifacts env arts opts = (Inl TargetMismatch, []))
      = (withoutFragment u \<noteq> withoutFragment (ArtifactsURL.requestedUrl (URL arts)))"
    if "url opts = Some u" "u \<noteq> []" for u
    using that assms(1,2) neq
    by (simp add: auditArtifacts_cases urlMismatch_def equalWithExcludedFragments_def)
  have skipped: "fst (auditArtifacts env arts opts) \<noteq> Inl TargetMismatch"
    if "url opts = None \<or> url opts = Some []"
    using that assms ev
    by (auto simp: auditArtifacts_cases urlMismatch_def)
  show ?thesis
    using general skipped by (auto simp: withoutFragment_append)
qed

theorem C3_target_guard_witness:
  "auditArtifacts (env0\<lparr>URL_equalWithExcludedFragments := equalWithExcludedFragments\<rparr>)
     artifacts0 (runOpts0\<lparr>url := Some ''http://example.com/other''\<rparr>)
     = (Inl TargetMismatch, [])
   \<and> auditArtifacts (env0\<lparr>URL_equalWithExcludedFragments := equalWithExcludedFragments\<rparr>)
       artifacts0 (runOpts0\<lparr>url := Some ''http://example.com/#top''\<rparr>)
     \<noteq> (Inl TargetMismatch, [])
   \<and> fst (auditArtifacts (env0\<lparr>URL_equalWithExcludedFragments := equalWithExcludedFragments\<rparr>)
       artifacts0 (runOpts0\<lparr>url := None\<rparr>))
     \<noteq> Inl TargetMismatch"
proof -
  let ?env = "env0\<lparr>URL_equalWithExcludedFragments := equalWithExcludedFragments\<rparr>"
  have audits: "Config.audits (config (runOpts0\<lparr>url := u\<rparr>)) = Some [''auditA'']" for u
    by (simp add: runOpts0_def config0_def)
  have eq: "URL_equalWithExcludedFragments ?env = equalWithExcludedFragments"
    by simp
  have req: "ArtifactsURL.requestedUrl (URL artifacts0) = ''http://example.com/'' @ []"
    by (simp add: artifacts0_def)
  have a: "auditArtifacts ?env artifacts0 (runOpts0\<lparr>url := Some ''http://example.com/other''\<rparr>)
     = (Inl TargetMismatch, [])"
    using C3_target_guard [where opts = "runOpts0\<lparr>url := Some ''http://example.com/other''\<rparr>"
        and env = ?env and arts = artifacts0 and u = "''http://example.com/other''",
        OF audits eq]
    by (simp add: artifacts0_def withoutFragment_def)
  have b: "auditArtifacts ?env artifacts0 (runOpts0\<lparr>url := Some ''http://example.com/#top''\<rparr>)
     \<noteq> (Inl TargetMismatch, [])"
    using C3_target_guard [where opts = "runOpts0\<lparr>url := Some ''http://example.com/#top''\<rparr>"
        and env = ?env and arts = artifacts0 and p = "''http://example.com/''" and f = "''#top''"
        and q = "''http://example.com/''" and g = "[]", OF audits eq] req
    by (simp add: isFragment_def)
  have c: "fst (auditArtifacts ?env artifacts0 (runOpts0\<lparr>url := None\<rparr>)) \<noteq> Inl TargetMismatch"
    using C3_target_guard [where opts = "runOpts0\<lparr>url := None\<rparr>"
        and env = ?env and arts = artifacts0, OF audits eq]
    by simp
  from a b c show ?thesis by blast
qed

section \<open>The phases of a run\<close>

lemma gatherArtifacts_cases:
  "gatherArtifacts env conn opts =
     (if \<not> shouldGather (Config.settings (config opts)) then
        call (LoadArtifacts (getArtifactsPath env (Config.settings (config opts))))
          (loadArtifacts env (getArtifactsPath env (Config.settings (config opts))))
      else case passes (config opts) of
        None \<Rightarrow> (Inl MissingPassesConfig, [])
      | Some ps \<Rightarrow>
        (case url opts of
           None \<Rightarrow> (Inl (MissingTarget None), [])
         | Some u \<Rightarrow>
           if u = [] then (Inl (MissingTarget (Some u)), [])
           else (case URL_href env u of
              None \<Rightarrow> (Inl InvalidTarget, [])
            | Some href \<Rightarrow>
                call (GatherRun href ps \<lparr>GatherOpts.settings = Config.settings (config opts),
                        connection = conn, driverMock = RunOpts.driverMock opts\<rparr>)
                  (GatherRunner_run env href ps \<lparr>GatherOpts.settings = Config.settings (config opts),
                        connection = conn, driverMock = RunOpts.driverMock opts\<rparr>))))"
  by (simp add: gatherArtifacts_def Let_def throw_def split: option.splits)

lemma gather_steps: "\<forall>ev\<in>set (snd (gatherArtifacts env conn opts)). step_of ev = Collecting"
  by (simp add: gatherArtifacts_cases split: option.splits)

lemma snd_saveStep:
  "snd (saveStep env s arts)
     = (if truthy (gatherMode s) then [SaveArtifacts arts (getArtifactsPath env s)] else [])"
  by (simp add: saveStep_def Let_def ret_def)

lemma fst_saveStep:
  "fst (saveStep env s arts)
     = (if truthy (gatherMode s)
        then (case saveArtifacts env arts (getArtifactsPath env s) of
                Inl m \<Rightarrow> Inl (Collaborator m) | Inr u \<Rightarrow> Inr u)
        else Inr ())"
  by (simp add: saveStep_def Let_def ret_def call_def)

lemma run_try_phases:
  "run_try env conn opts =
     (case gatherArtifacts env conn opts of
        (Inl e, tr) \<Rightarrow> (Inl e, CaptureBreadcrumb ''Run started'' # tr)
      | (Inr arts, tr) \<Rightarrow>
        (case saveStep env (Config.settings (config opts)) arts of
           (Inl e, tr2) \<Rightarrow> (Inl e, CaptureBreadcrumb ''Run started'' # tr @ tr2)
         | (Inr u, tr2) \<Rightarrow>
           if \<not> shouldAudit (Config.settings (config opts))
           then (Inr None, CaptureBreadcrumb ''Run started'' # tr @ tr2)
           else (fst (auditAndReport env opts (Date_now env 0) arts),
                 CaptureBreadcrumb ''Run started'' # tr @ tr2
                   @ snd (auditAndReport env opts (Date_now env 0) arts))))"
  by (simp add: run_try_def Let_def ret_def split: prod.splits sum.splits)

lemma rethrown_not_Inr [simp]: "rethrown env err \<noteq> Inr r"
  by (simp add: rethrown_def split: sum.splits)

lemma rethrown_resolved:
  "captureException env err Fatal = Inr u \<Longrightarrow> rethrown env err = Inl err"
  by (simp add: rethrown_def)

lemma rethrown_env0 [simp]: "rethrown env0 err = Inl err"
  by (simp add: rethrown_def env0_def)

lemma run_try_gather_fails:
  assumes "gatherArtifacts env conn opts = (Inl e, tr)"
  shows "run_try env conn opts = (Inl e, CaptureBreadcrumb ''Run started'' # tr)"
  using assms by (simp add: run_try_phases)

lemma run_gather_fails:
  assumes "gatherArtifacts env conn opts = (Inl e, tr)"
  shows "run env conn opts
     = (rethrown env e, CaptureBreadcrumb ''Run started'' # tr @ [CaptureException e Fatal])"
  using assms by (simp add: run_def run_try_phases)

text \<open>
  Claim C5, as stated, at an empty list of passes: collection is required and
  \<^verbatim>\<open>config.passes\<close> is \<^verbatim>\<open>[]\<close>, yet nothing is raised and the collector is called, with the
  empty list. An empty array is truthy, so \<^verbatim>\<open>!runOpts.config.passes\<close> is false.
\<close>

theorem C5_empty_passes_counterexample:
  "shouldGather (Config.settings (config (runOpts0\<lparr>config := config0\<lparr>passes := Some []\<rparr>\<rparr>)))
   \<and> passes (config (runOpts0\<lparr>config := config0\<lparr>passes := Some []\<rparr>\<rparr>)) = Some []
   \<and> gatherArtifacts env0 ''connection'' (runOpts0\<lparr>config := config0\<lparr>passes := Some []\<rparr>\<rparr>)
      = (Inr artifacts0,
         [GatherRun ''http://example.com/'' []
            \<lparr>GatherOpts.settings = settings0, connection = ''connection'', driverMock = None\<rparr>])"
  by (simp add: gatherArtifacts_cases shouldGather_def js_or_def strict_eq_def gatherMode_def
      auditMode_def get_field_def runOpts0_def config0_def settings0_def env0_def href0_def)

text \<open>
  Claim C5, amended: when collection is required, the \<^verbatim>\<open>try\<close> block of the run raises,
  without calling the collector (the trace of the run holds the two telemetry calls
  only), the missing-passes error if \<^verbatim>\<open>config.passes\<close> is absent; else the missing-target
  error if the url is absent or empty; else the invalid-target error if the url does
  not parse. The run fails with what the \<^verbatim>\<open>catch\<close> clause gives for that error, which is
  that error once the telemetry sink has taken it. Otherwise the collector is called
  with the canonical url \<^verbatim>\<open>new URL(url).href\<close>, the passes and the settings, and its
  outcome is that of the gather phase.
\<close>

theorem C5_collection_preconditions:
  assumes "shouldGather (Config.settings (config opts))"
  shows "(passes (config opts) = None \<longrightarrow>
            run_try env conn opts = (Inl MissingPassesConfig, [CaptureBreadcrumb ''Run started''])
            \<and> run env conn opts = (rethrown env MissingPassesConfig,
              [CaptureBreadcrumb ''Run started'', CaptureException MissingPassesConfig Fatal]))
       \<and> (passes (config opts) = Some ps \<and> (url opts = None \<or> url opts = Some []) \<longrightarrow>
            run_try env conn opts
              = (Inl (MissingTarget (url opts)), [CaptureBreadcrumb ''Run started''])
            \<and> run env conn opts = (rethrown env (MissingTarget (url opts)),
              [CaptureBreadcrumb ''Run started'',
               CaptureException (MissingTarget (url opts)) Fatal]))
       \<and> (passes (config opts) = Some ps \<and> url opts = Some u \<and> u \<noteq> []
            \<and> URL_href env u = None \<longrightarrow>
            run_try env conn opts = (Inl InvalidTarget, [CaptureBreadcrumb ''Run started''])
            \<and> run env conn opts = (rethrown env InvalidTarget,
              [CaptureBreadcrumb ''Run started'', CaptureException InvalidTarget Fatal]))
       \<and> (passes (config opts) = Some ps \<and> url opts = Some u \<and> u \<noteq> []
            \<and> URL_href env u = Some href \<longrightarrow>
            gatherArtifacts env conn opts
              = call (GatherRun href ps \<lparr>GatherOpts.settings = Config.settings (config opts),
                        connection = conn, driverMock = RunOpts.driverMock opts\<rparr>)
                  (GatherRunner_run env href ps
                     \<lparr>GatherOpts.settings = Config.settings (config opts),
                      connection = conn, driverMock = RunOpts.driverMock opts\<rparr>))
       \<and> (captureException env err Fatal = Inr () \<longrightarrow> rethrown env err = Inl err)"
proof -
  have a: "run_try env conn opts = (Inl MissingPassesConfig, [CaptureBreadcrumb ''Run started''])
      \<and> run env conn opts = (rethrown env MissingPassesConfig,
              [CaptureBreadcrumb ''Run started'', CaptureException MissingPassesConfig Fatal])"
    if "passes (config opts) = None"
    using run_gather_fails [of env conn opts MissingPassesConfig "[]"]
      run_try_gather_fails [of env conn opts MissingPassesConfig "[]"] that assms
    by (simp add: gatherArtifacts_cases)
  have b: "run_try env conn opts
        = (Inl (MissingTarget (url opts)), [CaptureBreadcrumb ''Run started''])
      \<and> run env conn opts = (rethrown env (MissingTarget (url opts)),
                 [CaptureBreadcrumb ''Run started'',
                  CaptureException (MissingTarget (url opts)) Fatal])"
    if "passes (config opts) = Some ps" "url opts = None \<or> url opts = Some []"
    using run_gather_fails [of env conn opts "MissingTarget (url opts)" "[]"]
      run_try_gather_fails [of env conn opts "MissingTarget (url opts)" "[]"] that assms
    by (auto simp: gatherArtifacts_cases)
  have c: "run_try env conn opts = (Inl InvalidTarget, [CaptureBreadcrumb ''Run started''])
      \<and> run env conn opts = (rethrown env InvalidTarget,
                    [CaptureBreadcrumb ''Run started'', CaptureException InvalidTarget Fatal])"
    if "passes (config opts) = Some ps" "url opts = Some u" "u \<noteq> []" "URL_href env u = None"
    using run_gather_fails [of env conn opts InvalidTarget "[]"]
      run_try_gather_fails [of env conn opts InvalidTarget "[]"] that assms
    by (simp add: gatherArtifacts_cases)
  have d: "gatherArtifacts env conn opts
                    = call (GatherRun href ps \<lparr>GatherOpts.settings = Config.settings (config opts),
                              connection = conn, driverMock = RunOpts.driverMock opts\<rparr>)
                        (GatherRunner_run env href ps
                           \<lparr>GatherOpts.settings = Config.settings (config opts),
                            connection = conn, driverMock = RunOpts.driverMock opts\<rparr>)"
    if "passes (config opts) = Some ps" "url opts = Some u" "u \<noteq> []" "URL_href env u = Some href"
    using that assms by (simp add: gatherArtifacts_cases)
  have e: "rethrown env err = Inl err" if "captureException env err Fatal = Inr ()"
    using that by (rule rethrown_resolved)
  show ?thesis
    using a b c d e by blast
qed

theorem C5_collection_preconditions_witness:
  "run env0 ''connection'' (runOpts0\<lparr>config := config0\<lparr>passes := None\<rparr>\<rparr>)
     = (Inl MissingPassesConfig,
        [CaptureBreadcrumb ''Run started'', CaptureException MissingPassesConfig Fatal])
   \<and> run env0 ''connection'' (runOpts0\<lparr>url := None\<rparr>)
     = (Inl (MissingTarget None),
        [CaptureBreadcrumb ''Run started'', CaptureException (MissingTarget None) Fatal])
   \<and> run env0 ''connection'' (runOpts0\<lparr>url := Some ''example''\<rparr>)
     = (Inl InvalidTarget,
        [CaptureBreadcrumb ''Run started'', CaptureException InvalidTarget Fatal])
   \<and> gatherArtifacts env0 ''connection'' runOpts0
     = (Inr artifacts0,
        [GatherRun ''http://example.com/'' [''defaultPass'']
           \<lparr>GatherOpts.settings = settings0, connection = ''connection'', driverMock = None\<rparr>])"
proof -
  have gather: "shouldGather (Config.settings (config (runOpts0\<lparr>config := config0\<lparr>passes := ps\<rparr>,
      url := u\<rparr>)))" for ps u
    by (simp add: shouldGather_def js_or_def strict_eq_def gatherMode_def auditMode_def
        get_field_def config0_def settings0_def)
  have given: "passes (config runOpts0) = Some [''defaultPass'']"
    "url runOpts0 = Some ''http://example.com''" "RunOpts.driverMock runOpts0 = None"
    "Config.settings (config runOpts0) = settings0"
    "URL_href env0 ''http://example.com'' = Some ''http://example.com/''"
    "URL_href env0 ''example'' = None"
    "GatherRunner_run env0 = (\<lambda>href ps gatherOpts. Inr artifacts0)"
    by (simp_all add: runOpts0_def config0_def env0_def href0_def)
  have a: "run env0 ''connection'' (runOpts0\<lparr>config := config0\<lparr>passes := None\<rparr>\<rparr>)
     = (Inl MissingPassesConfig,
        [CaptureBreadcrumb ''Run started'', CaptureException MissingPassesConfig Fatal])"
    using C5_collection_preconditions [where env = env0 and conn = "''connection''"
        and opts = "runOpts0\<lparr>config := config0\<lparr>passes := None\<rparr>\<rparr>", THEN conjunct1]
      gather [where ps = None and u = "url runOpts0"]
    by simp
  have b: "run env0 ''connection'' (runOpts0\<lparr>url := None\<rparr>)
     = (Inl (MissingTarget None),
        [CaptureBreadcrumb ''Run started'', CaptureException (MissingTarget None) Fatal])"
    using C5_collection_preconditions [where env = env0 and conn = "''connection''"
        and opts = "runOpts0\<lparr>url := None\<rparr>" and ps = "[''defaultPass'']",
        THEN conjunct2, THEN conjunct1]
      gather [where ps = "Some [''defaultPass'']" and u = None] given
    by (simp add: runOpts0_def config0_def)
  have c: "run env0 ''connection'' (runOpts0\<lparr>url := Some ''example''\<rparr>)
     = (Inl InvalidTarget,
        [CaptureBreadcrumb ''Run started'', CaptureException InvalidTarget Fatal])"
    using C5_collection_preconditions [where env = env0 and conn = "''connection''"
        and opts = "runOpts0\<lparr>url := Some ''example''\<rparr>" and ps = "[''defaultPass'']"
        and u = "''example''", THEN conjunct2, THEN conjunct2, THEN conjunct1]
      gather [where ps = "Some [''defaultPass'']" and u = "Some ''example''"] given
    by (simp add: runOpts0_def config0_def)
  have d: "gatherArtifacts env0 ''connection'' runOpts0
     = (Inr artifacts0,
        [GatherRun ''http://example.com/'' [''defaultPass'']
           \<lparr>GatherOpts.settings = settings0, connection = ''connection'', driverMock = None\<rparr>])"
    using C5_collection_preconditions [where env = env0 and conn = "''connection''"
        and opts = runOpts0 and ps = "[''defaultPass'']"
        and u = "''http://example.com''" and href = "''http://example.com/''",
        THEN conjunct2, THEN conjunct2, THEN conjunct2, THEN conjunct1]
      gather [where ps = "Some [''defaultPass'']" and u = "Some ''http://example.com''"] given
    by (simp add: runOpts0_def config0_def)
  from a b c d show ?thesis by blast
qed

section \<open>Projections of a run\<close>

lemma fst_run:
  "fst (run env conn opts)
     = (case fst (run_try env conn opts) of Inl e \<Rightarrow> rethrown env e | Inr r \<Rightarrow> Inr r)"
  by (simp add: run_def split: prod.splits sum.splits)

lemma snd_run:
  "snd (run env conn opts)
     = snd (run_try env conn opts)
       @ (case fst (run_try env conn opts) of
            Inl e \<Rightarrow> [CaptureException e Fatal] | Inr r \<Rightarrow> [])"
  by (simp add: run_def split: prod.splits sum.splits)

lemma fst_run_try:
  "fst (run_try env conn opts) =
     (case fst (gatherArtifacts env conn opts) of
        Inl e \<Rightarrow> Inl e
      | Inr arts \<Rightarrow>
        (case fst (saveStep env (Config.settings (config opts)) arts) of
           Inl e \<Rightarrow> Inl e
         | Inr u \<Rightarrow>
           if \<not> shouldAudit (Config.settings (config opts)) then Inr None
           else fst (auditAndReport env opts (Date_now env 0) arts)))"
  by (simp add: run_try_phases split: prod.splits sum.splits)

lemma snd_run_try:
  "snd (run_try env conn opts) =
     CaptureBreadcrumb ''Run started'' # snd (gatherArtifacts env conn opts)
     @ (case fst (gatherArtifacts env conn opts) of
          Inl e \<Rightarrow> []
        | Inr arts \<Rightarrow>
          snd (saveStep env (Config.settings (config opts)) arts)
          @ (case fst (saveStep env (Config.settings (config opts)) arts) of
               Inl e \<Rightarrow> []
             | Inr u \<Rightarrow>
               if \<not> shouldAudit (Config.settings (config opts)) then []
               else snd (auditAndReport env opts (Date_now env 0) arts)))"
  by (simp add: run_try_phases split: prod.splits sum.splits)

lemma auditAndReport_audit_fails:
  "auditArtifacts env arts opts = (Inl e, tr) \<Longrightarrow> auditAndReport env opts t0 arts = (Inl e, tr)"
  by (simp add: auditAndReport_def Let_def)

lemma isAuditRun_step: "isAuditRun ev = (step_of ev = Evaluating)"
  by (cases ev) simp_all

lemma gather_no_AuditRun: "filter isAuditRun (snd (gatherArtifacts env conn opts)) = []"
  using gather_steps [of env conn opts] by (simp add: filter_empty_conv isAuditRun_step)

lemma save_no_AuditRun: "filter isAuditRun (snd (saveStep env s arts)) = []"
  by (simp add: snd_saveStep)

text \<open>
  Claim C6, as stated, at an empty list of audits: evaluation is required and
  \<^verbatim>\<open>config.audits\<close> is \<^verbatim>\<open>[]\<close>, yet nothing is raised and the evaluator is called, with the
  empty list. An empty array is truthy, so \<^verbatim>\<open>!config.audits\<close> is false.
\<close>

theorem C6_empty_audits_counterexample:
  "shouldAudit (Config.settings (config (runOpts0\<lparr>config := config0\<lparr>Config.audits := Some []\<rparr>\<rparr>)))
   \<and> Config.audits (config (runOpts0\<lparr>config := config0\<lparr>Config.audits := Some []\<rparr>\<rparr>)) = Some []
   \<and> auditArtifacts env0 artifacts0 (runOpts0\<lparr>config := config0\<lparr>Config.audits := Some []\<rparr>\<rparr>)
      = (Inr ([auditA], [''audit warning'']),
         [AuditRun settings0 []
            \<lparr>computed = instantiateComputedArtifacts env0, base = artifacts0\<rparr>])"
  by (simp add: auditArtifacts_cases evaluate_call shouldAudit_def js_or_def strict_eq_def
      gatherMode_def auditMode_def get_field_def runOpts0_def config0_def settings0_def
      urlMismatch_def artifacts0_def equalWithExcludedFragments_def withoutFragment_def
      env0_def href0_def)

text \<open>
  Claim C6, amended: if \<^verbatim>\<open>config.audits\<close> is absent, \<^verbatim>\<open>auditArtifacts\<close> raises the
  missing-audits error before it calls anything; in a run that requires evaluation and
  whose gather phase and save have succeeded, the \<^verbatim>\<open>try\<close> block raises that error, and
  the run fails with what the \<^verbatim>\<open>catch\<close> clause gives for it, which is that error once
  the telemetry sink has taken it; and no run with absent audits calls the evaluator or
  returns a report. If \<^verbatim>\<open>config.audits\<close> is present, also empty, that error is not
  raised.
\<close>

theorem C6_audits_precondition:
  "(Config.audits (config opts) = None \<longrightarrow>
      auditArtifacts env arts opts = (Inl MissingAuditsConfig, []))
   \<and> (Config.audits (config opts) = None \<and> shouldAudit (Config.settings (config opts))
        \<and> gatherArtifacts env conn opts = (Inr arts, trg)
        \<and> saveStep env (Config.settings (config opts)) arts = (Inr (), trs) \<longrightarrow>
      run_try env conn opts = (Inl MissingAuditsConfig,
        CaptureBreadcrumb ''Run started'' # trg @ trs)
      \<and> run env conn opts = (rethrown env MissingAuditsConfig,
        CaptureBreadcrumb ''Run started'' # trg @ trs
          @ [CaptureException MissingAuditsConfig Fatal]))
   \<and> (captureException env MissingAuditsConfig Fatal = Inr ()
        \<longrightarrow> rethrown env MissingAuditsConfig = Inl MissingAuditsConfig)
   \<and> (Config.audits (config opts) = None \<longrightarrow>
        filter isAuditRun (snd (run env conn opts)) = []
        \<and> (\<forall>r. fst (run env conn opts) \<noteq> Inr (Some r)))
   \<and> (Config.audits (config opts) = Some ads \<longrightarrow>
        fst (auditArtifacts env arts opts) \<noteq> Inl MissingAuditsConfig)"
proof -
  have none: "auditArtifacts env a opts = (Inl MissingAuditsConfig, [])"
    if "Config.audits (config opts) = None" for a
    using that by (simp add: auditArtifacts_cases)
  then have report: "auditAndReport env opts t0 a = (Inl MissingAuditsConfig, [])"
    if "Config.audits (config opts) = None" for a t0
    using that by (simp add: auditAndReport_audit_fails)
  have whole: "run_try env conn opts = (Inl MissingAuditsConfig,
        CaptureBreadcrumb ''Run started'' # trg @ trs)
      \<and> run env conn opts = (rethrown env MissingAuditsConfig,
        CaptureBreadcrumb ''Run started'' # trg @ trs
          @ [CaptureException MissingAuditsConfig Fatal])"
    if "Config.audits (config opts) = None" "shouldAudit (Config.settings (config opts))"
      "gatherArtifacts env conn opts = (Inr arts, trg)"
      "saveStep env (Config.settings (config opts)) arts = (Inr (), trs)"
    using that report by (simp add: run_def run_try_phases)
  have quiet: "filter isAuditRun (snd (run env conn opts)) = []"
    if "Config.audits (config opts) = None"
    using that report gather_no_AuditRun [of env conn opts]
    by (simp add: snd_run snd_run_try fst_run_try save_no_AuditRun split: sum.splits)
  have norecord: "fst (run env conn opts) \<noteq> Inr (Some r)"
    if "Config.audits (config opts) = None" for r
    using that report
    by (simp add: fst_run fst_run_try split: sum.splits)
  have some: "fst (auditArtifacts env arts opts) \<noteq> Inl MissingAuditsConfig"
    if "Config.audits (config opts) = Some ads"
    using that fst_evaluate_not_Error [of env arts "config opts" ads]
    by (simp add: auditArtifacts_cases MissingAuditsConfig_def TargetMismatch_def
        SettingsMismatch_def)
  have sink: "rethrown env MissingAuditsConfig = Inl MissingAuditsConfig"
    if "captureException env MissingAuditsConfig Fatal = Inr ()"
    using that by (rule rethrown_resolved)
  from none whole sink quiet norecord some show ?thesis by blast
qed

theorem C6_audits_precondition_witness:
  "auditArtifacts env0 artifacts0 (runOpts0\<lparr>config := config0\<lparr>Config.audits := None\<rparr>\<rparr>)
     = (Inl MissingAuditsConfig, [])
   \<and> run env0 ''connection'' (runOpts0\<lparr>config := config0\<lparr>Config.audits := None\<rparr>\<rparr>)
     = (Inl MissingAuditsConfig,
        [CaptureBreadcrumb ''Run started'',
         GatherRun ''http://example.com/'' [''defaultPass'']
           \<lparr>GatherOpts.settings = settings0, connection = ''connection'', driverMock = None\<rparr>,
         CaptureException MissingAuditsConfig Fatal])
   \<and> filter isAuditRun
        (snd (run env0 ''connection'' (runOpts0\<lparr>config := config0\<lparr>Config.audits := None\<rparr>\<rparr>)))
     = []
   \<and> fst (auditArtifacts env0 artifacts0 runOpts0) \<noteq> Inl MissingAuditsConfig"
proof -
  let ?opts = "runOpts0\<lparr>config := config0\<lparr>Config.audits := None\<rparr>\<rparr>"
  have audit: "shouldAudit (Config.settings (config ?opts))"
    by (simp add: shouldAudit_def js_or_def strict_eq_def gatherMode_def auditMode_def
        get_field_def config0_def settings0_def)
  have gather: "gatherArtifacts env0 ''connection'' ?opts
     = (Inr artifacts0,
        [GatherRun ''http://example.com/'' [''defaultPass'']
           \<lparr>GatherOpts.settings = settings0, connection = ''connection'', driverMock = None\<rparr>])"
    by (simp add: gatherArtifacts_cases shouldGather_def js_or_def strict_eq_def gatherMode_def
        auditMode_def get_field_def runOpts0_def config0_def settings0_def env0_def href0_def)
  have save: "saveStep env0 (Config.settings (config ?opts)) artifacts0 = (Inr (), [])"
    by (simp add: saveStep_def ret_def gatherMode_def get_field_def config0_def settings0_def)
  have a: "auditArtifacts env0 artifacts0 ?opts = (Inl MissingAuditsConfig, [])"
    and b: "run env0 ''connection'' ?opts
     = (Inl MissingAuditsConfig,
        [CaptureBreadcrumb ''Run started'',
         GatherRun ''http://example.com/'' [''defaultPass'']
           \<lparr>GatherOpts.settings = settings0, connection = ''connection'', driverMock = None\<rparr>,
         CaptureException MissingAuditsConfig Fatal])"
    and c: "filter isAuditRun (snd (run env0 ''connection'' ?opts)) = []"
    using C6_audits_precondition [where env = env0 and conn = "''connection''"
        and opts = ?opts and arts = artifacts0 and trs = "[]"
        and trg = "[GatherRun ''http://example.com/'' [''defaultPass'']
           \<lparr>GatherOpts.settings = settings0, connection = ''connection'', driverMock = None\<rparr>]"]
      audit gather save
    by simp_all
  have d: "fst (auditArtifacts env0 artifacts0 runOpts0) \<noteq> Inl MissingAuditsConfig"
    using C6_audits_precondition [where env = env0 and opts = runOpts0 and arts = artifacts0
        and ads = "[''auditA'']"]
    by (simp add: runOpts0_def config0_def)
  from a b c d show ?thesis by blast
qed



section \<open>The steps found in a trace\<close>

lemma all_bind:
  assumes "\<forall>ev\<in>set (snd m). P ev" and "\<And>x. \<forall>ev\<in>set (snd (f x)). P ev"
  shows "\<forall>ev\<in>set (snd (bind m f)). P ev"
  using assms by (cases "fst m") (auto simp: snd_bind)

lemma auditArtifacts_steps:
  "\<forall>ev\<in>set (snd (auditArtifacts env arts opts)). step_of ev = Evaluating"
  by (simp add: auditArtifacts_cases snd_evaluate split: option.splits)

lemma all_call: "P ev \<Longrightarrow> \<forall>e\<in>set (snd (call ev r)). P e"
  by simp

lemma all_ret: "\<forall>e\<in>set (snd (ret x)). P e"
  by (simp add: ret_def)

lemma all_tell: "P ev \<Longrightarrow> \<forall>e\<in>set (snd (tell ev)). P e"
  by (simp add: tell_def)

lemma auditAndReport_steps:
  "\<forall>ev\<in>set (snd (auditAndReport env opts t0 arts)).
     step_of ev = Evaluating \<or> step_of ev = Reporting"
  unfolding auditAndReport_def Let_def split_beta
proof (intro all_bind all_call all_ret all_tell)
  show "\<forall>ev\<in>set (snd (auditArtifacts env arts opts)).
      step_of ev = Evaluating \<or> step_of ev = Reporting"
    using auditArtifacts_steps [of env arts opts] by simp
next
  fix x :: "AuditResult list \<times> string list"
  show "\<forall>ev\<in>set (snd (case Config.categories (config opts) of
          None \<Rightarrow> ret Map.empty
        | Some cs \<Rightarrow> call (ScoreAllCategories cs (resultsById (fst x)))
             (scoreAllCategories env cs (resultsById (fst x))))).
      step_of ev = Evaluating \<or> step_of ev = Reporting"
    by (simp add: ret_def split: option.splits)
qed simp_all

lemma run_try_steps:
  "\<forall>ev\<in>set (snd (run_try env conn opts)).
     ev = CaptureBreadcrumb ''Run started''
     \<or> (step_of ev = Collecting \<and> ev \<in> set (snd (gatherArtifacts env conn opts)))
     \<or> (step_of ev = Persisting \<and>
          (\<exists>arts. fst (gatherArtifacts env conn opts) = Inr arts
             \<and> truthy (gatherMode (Config.settings (config opts)))
             \<and> ev = SaveArtifacts arts (getArtifactsPath env (Config.settings (config opts)))))
     \<or> ((step_of ev = Evaluating \<or> step_of ev = Reporting)
          \<and> shouldAudit (Config.settings (config opts)))"
proof -
  have g: "\<forall>ev\<in>set (snd (gatherArtifacts env conn opts)). step_of ev = Collecting"
    by (rule gather_steps)
  have a: "\<forall>ev\<in>set (snd (auditAndReport env opts (Date_now env 0) arts)).
     step_of ev = Evaluating \<or> step_of ev = Reporting" for arts
    by (rule auditAndReport_steps)
  show ?thesis
    using g a
    by (auto simp: snd_run_try snd_saveStep split: sum.splits if_splits)
qed

lemma run_try_no_CaptureException:
  "filter isCaptureException (snd (run_try env conn opts)) = []"
proof -
  have "\<not> isCaptureException ev" if "ev \<in> set (snd (run_try env conn opts))" for ev
    using run_try_steps [of env conn opts] that by (cases ev) auto
  then show ?thesis by (simp add: filter_empty_conv)
qed

lemma run_try_raises:
  assumes "fst (run_try env conn opts) = Inl err"
  shows "raisedAndReported env conn opts err"
proof -
  from assms have "run env conn opts
      = (rethrown env err, snd (run_try env conn opts) @ [CaptureException err Fatal])"
    by (cases "run_try env conn opts") (simp add: run_def)
  with assms show ?thesis
    by (simp add: raisedAndReported_def run_try_no_CaptureException)
qed

lemma gather_raises:
  "fst (gatherArtifacts env conn opts) = Inl err \<Longrightarrow> fst (run_try env conn opts) = Inl err"
  by (simp add: fst_run_try)

lemma save_raises:
  assumes "fst (gatherArtifacts env conn opts) = Inr arts"
    and "truthy (gatherMode (Config.settings (config opts)))"
    and "saveArtifacts env arts (getArtifactsPath env (Config.settings (config opts))) = Inl m"
  shows "fst (run_try env conn opts) = Inl (Collaborator m)"
  using assms by (simp add: fst_run_try fst_saveStep)

lemma report_raises:
  assumes "fst (gatherArtifacts env conn opts) = Inr arts"
    and "fst (saveStep env (Config.settings (config opts)) arts) = Inr ()"
    and "shouldAudit (Config.settings (config opts))"
    and "fst (auditAndReport env opts (Date_now env 0) arts) = Inl err"
  shows "fst (run_try env conn opts) = Inl err"
  using assms by (simp add: fst_run_try)

lemma audit_raises:
  "fst (auditArtifacts env arts opts) = Inl err
     \<Longrightarrow> fst (auditAndReport env opts t0 arts) = Inl err"
  by (simp add: auditAndReport_def Let_def fst_bind)

lemma scorer_raises:
  assumes "fst (auditArtifacts env arts opts) = Inr (rs, ws)"
    and "Config.categories (config opts) = Some cs"
    and "scoreAllCategories env cs (resultsById rs) = Inl m"
  shows "fst (auditAndReport env opts t0 arts) = Inl (Collaborator m)"
  using assms by (simp add: auditAndReport_def Let_def fst_bind split_beta tell_def call_def)

lemma strings_raise:
  assumes "fst (auditArtifacts env arts opts) = Inr (rs, ws)"
    and "scored env opts rs cats"
    and "getRendererFormattedStrings env (get_field (Config.settings (config opts)) ''locale'')
         = Inl m"
  shows "fst (auditAndReport env opts t0 arts) = Inl (Collaborator m)"
  using assms
  by (cases "Config.categories (config opts)")
     (simp_all add: scored_def auditAndReport_def Let_def fst_bind split_beta tell_def
        call_def ret_def)

lemma localizer_raises:
  assumes "fst (auditArtifacts env arts opts) = Inr (rs, ws)"
    and "scored env opts rs cats"
    and "getRendererFormattedStrings env (get_field (Config.settings (config opts)) ''locale'')
         = Inr strings"
    and "replaceIcuMessageInstanceIds env (assembled env opts arts rs ws cats strings)
           (get_field (Config.settings (config opts)) ''locale'') = Inl m"
  shows "fst (auditAndReport env opts (Date_now env 0) arts) = Inl (Collaborator m)"
  using assms
  by (cases "Config.categories (config opts)")
     (simp_all add: scored_def auditAndReport_def Let_def fst_bind split_beta tell_def
        call_def ret_def assembled_def collectionWarnings_def)

lemma renderer_raises:
  assumes "fst (auditArtifacts env arts opts) = Inr (rs, ws)"
    and "scored env opts rs cats"
    and "getRendererFormattedStrings env (get_field (Config.settings (config opts)) ''locale'')
         = Inr strings"
    and "replaceIcuMessageInstanceIds env (assembled env opts arts rs ws cats strings)
           (get_field (Config.settings (config opts)) ''locale'') = Inr (lhr1, paths)"
    and "generateReport env (localized lhr1 paths)
           (get_field (Config.settings (config opts)) ''output'') = Inl m"
  shows "fst (auditAndReport env opts (Date_now env 0) arts) = Inl (Collaborator m)"
  using assms
  by (cases "Config.categories (config opts)")
     (simp_all add: scored_def auditAndReport_def Let_def fst_bind split_beta tell_def
        call_def ret_def assembled_def collectionWarnings_def localized_def)

text \<open>
  Claim C9, as stated, at a telemetry sink that fails: the \<^verbatim>\<open>try\<close> block raises the
  missing-target error, \<^verbatim>\<open>Sentry.captureException\<close> is called with it and rejects, and the
  caller receives what the sink raised, not the error of the run.
\<close>

theorem C9_failing_sink_counterexample:
  "run_try (env0\<lparr>captureException := \<lambda>err lvl. Inl ''telemetry down''\<rparr>) ''connection''
       (runOpts0\<lparr>url := None\<rparr>)
     = (Inl (MissingTarget None), [CaptureBreadcrumb ''Run started''])
   \<and> run (env0\<lparr>captureException := \<lambda>err lvl. Inl ''telemetry down''\<rparr>) ''connection''
       (runOpts0\<lparr>url := None\<rparr>)
     = (Inl (Collaborator ''telemetry down''),
        [CaptureBreadcrumb ''Run started'', CaptureException (MissingTarget None) Fatal])"
proof -
  have "shouldGather (Config.settings (config (runOpts0\<lparr>url := None\<rparr>)))"
    by (simp add: shouldGather_def js_or_def strict_eq_def gatherMode_def auditMode_def
        get_field_def runOpts0_def config0_def settings0_def)
  then have "gatherArtifacts (env0\<lparr>captureException := \<lambda>err lvl. Inl ''telemetry down''\<rparr>)
      ''connection'' (runOpts0\<lparr>url := None\<rparr>) = (Inl (MissingTarget None), [])"
    by (simp add: gatherArtifacts_cases) (simp add: runOpts0_def config0_def)
  then show ?thesis
    by (simp add: run_def run_try_phases rethrown_def)
qed

text \<open>
  Claim C9, amended: every error raised in a run, by each of its checks and by each of
  its collaborators at its turn (the store when loading or saving, the collector, the
  evaluator, the scorer, the localizer at either call, the renderer), is the error of
  the \<^verbatim>\<open>try\<close> block; the run then ends with a call of the telemetry sink with that error
  and the level \<^verbatim>\<open>fatal\<close>, the only such call in its trace, and returns no report. When
  that call resolves, the run raises the error unchanged.
\<close>

theorem C9_error_reported_once_and_rethrown:
  "(\<not> shouldGather (Config.settings (config opts))
      \<and> loadArtifacts env (getArtifactsPath env (Config.settings (config opts))) = Inl m
      \<longrightarrow> raisedAndReported env conn opts (Collaborator m))
   \<and> (shouldGather (Config.settings (config opts)) \<and> passes (config opts) = None
      \<longrightarrow> raisedAndReported env conn opts MissingPassesConfig)
   \<and> (shouldGather (Config.settings (config opts)) \<and> passes (config opts) = Some ps
        \<and> (url opts = None \<or> url opts = Some [])
      \<longrightarrow> raisedAndReported env conn opts (MissingTarget (url opts)))
   \<and> (shouldGather (Config.settings (config opts)) \<and> passes (config opts) = Some ps
        \<and> url opts = Some u \<and> u \<noteq> [] \<and> URL_href env u = None
      \<longrightarrow> raisedAndReported env conn opts InvalidTarget)
   \<and> (shouldGather (Config.settings (config opts)) \<and> passes (config opts) = Some ps
        \<and> url opts = Some u \<and> u \<noteq> [] \<and> URL_href env u = Some href
        \<and> GatherRunner_run env href ps \<lparr>GatherOpts.settings = Config.settings (config opts),
             connection = conn, driverMock = RunOpts.driverMock opts\<rparr> = Inl m
      \<longrightarrow> raisedAndReported env conn opts (Collaborator m))
   \<and> (fst (gatherArtifacts env conn opts) = Inr arts
        \<and> truthy (gatherMode (Config.settings (config opts)))
        \<and> saveArtifacts env arts (getArtifactsPath env (Config.settings (config opts))) = Inl m
      \<longrightarrow> raisedAndReported env conn opts (Collaborator m))
   \<and> (fst (gatherArtifacts env conn opts) = Inr arts
        \<and> fst (saveStep env (Config.settings (config opts)) arts) = Inr ()
        \<and> shouldAudit (Config.settings (config opts))
      \<longrightarrow> (Config.audits (config opts) = None
            \<longrightarrow> raisedAndReported env conn opts MissingAuditsConfig)
        \<and> (Config.audits (config opts) = Some ads
             \<and> urlMismatch env (url opts) (ArtifactsURL.requestedUrl (URL arts))
            \<longrightarrow> raisedAndReported env conn opts TargetMismatch)
        \<and> (Config.audits (config opts) = Some ads
             \<and> \<not> urlMismatch env (url opts) (ArtifactsURL.requestedUrl (URL arts))
             \<and> Artifacts.settings arts = Some gs
             \<and> differOutsideModes gs (Config.settings (config opts))
            \<longrightarrow> raisedAndReported env conn opts SettingsMismatch)
        \<and> (auditArtifacts env arts opts = evaluate env arts (config opts) ads
             \<and> AuditRunner_run env (Config.settings (config opts)) ads
                  \<lparr>computed = instantiateComputedArtifacts env, base = arts\<rparr> = Inl m
            \<longrightarrow> raisedAndReported env conn opts (Collaborator m))
        \<and> (fst (auditArtifacts env arts opts) = Inr (rs, ws)
            \<longrightarrow> (Config.categories (config opts) = Some cs
                  \<and> scoreAllCategories env cs (resultsById rs) = Inl m
                 \<longrightarrow> raisedAndReported env conn opts (Collaborator m))
              \<and> (scored env opts rs cats
                 \<longrightarrow> (getRendererFormattedStrings env
                        (get_field (Config.settings (config opts)) ''locale'') = Inl m
                      \<longrightarrow> raisedAndReported env conn opts (Collaborator m))
                   \<and> (getRendererFormattedStrings env
                        (get_field (Config.settings (config opts)) ''locale'') = Inr strings
                      \<longrightarrow> (replaceIcuMessageInstanceIds env
                             (assembled env opts arts rs ws cats strings)
                             (get_field (Config.settings (config opts)) ''locale'') = Inl m
                           \<longrightarrow> raisedAndReported env conn opts (Collaborator m))
                        \<and> (replaceIcuMessageInstanceIds env
                             (assembled env opts arts rs ws cats strings)
                             (get_field (Config.settings (config opts)) ''locale'')
                               = Inr (lhrL, paths)
                             \<and> generateReport env (localized lhrL paths)
                                 (get_field (Config.settings (config opts)) ''output'') = Inl m
                           \<longrightarrow> raisedAndReported env conn opts (Collaborator m))))))
   \<and> (fst (run_try env conn opts) = Inl err \<longrightarrow> raisedAndReported env conn opts err)
   \<and> (raisedAndReported env conn opts err \<longrightarrow> fst (run env conn opts) \<noteq> Inr r)
   \<and> (raisedAndReported env conn opts err \<and> captureException env err Fatal = Inr ()
      \<longrightarrow> fst (run env conn opts) = Inl err)"
proof -
  let ?s = "Config.settings (config opts)"
  let ?RR = "raisedAndReported env conn opts"
  note RR = run_try_raises [of env conn opts]
  have load: "?RR (Collaborator m)"
    if "\<not> shouldGather ?s" "loadArtifacts env (getArtifactsPath env ?s) = Inl m"
    using that by (intro RR gather_raises) (simp add: gatherArtifacts_cases)
  have nopasses: "?RR MissingPassesConfig"
    if "shouldGather ?s" "passes (config opts) = None"
    using that by (intro RR gather_raises) (simp add: gatherArtifacts_cases)
  have nourl: "?RR (MissingTarget (url opts))"
    if "shouldGather ?s" "passes (config opts) = Some ps" "url opts = None \<or> url opts = Some []"
    using that by (intro RR gather_raises) (auto simp: gatherArtifacts_cases)
  have badurl: "?RR InvalidTarget"
    if "shouldGather ?s" "passes (config opts) = Some ps" "url opts = Some u" "u \<noteq> []"
      "URL_href env u = None"
    using that by (intro RR gather_raises) (simp add: gatherArtifacts_cases)
  have collector: "?RR (Collaborator m)"
    if "shouldGather ?s" "passes (config opts) = Some ps" "url opts = Some u" "u \<noteq> []"
      "URL_href env u = Some href"
      "GatherRunner_run env href ps \<lparr>GatherOpts.settings = ?s,
             connection = conn, driverMock = RunOpts.driverMock opts\<rparr> = Inl m"
    using that by (intro RR gather_raises) (simp add: gatherArtifacts_cases)
  have save: "?RR (Collaborator m)"
    if "fst (gatherArtifacts env conn opts) = Inr arts" "truthy (gatherMode ?s)"
      "saveArtifacts env arts (getArtifactsPath env ?s) = Inl m"
    using that by (intro RR save_raises)
  have later: "?RR e"
    if "fst (gatherArtifacts env conn opts) = Inr arts" "fst (saveStep env ?s arts) = Inr ()"
      "shouldAudit ?s" "fst (auditAndReport env opts (Date_now env 0) arts) = Inl e" for e
    using that by (intro RR report_raises)
  have noaudits: "fst (auditAndReport env opts (Date_now env 0) arts) = Inl MissingAuditsConfig"
    if "Config.audits (config opts) = None"
    using that by (intro audit_raises) (simp add: auditArtifacts_cases)
  have target: "fst (auditAndReport env opts (Date_now env 0) arts) = Inl TargetMismatch"
    if "Config.audits (config opts) = Some ads"
      "urlMismatch env (url opts) (ArtifactsURL.requestedUrl (URL arts))"
    using that by (intro audit_raises) (simp add: auditArtifacts_cases)
  have settings: "fst (auditAndReport env opts (Date_now env 0) arts) = Inl SettingsMismatch"
    if "Config.audits (config opts) = Some ads"
      "\<not> urlMismatch env (url opts) (ArtifactsURL.requestedUrl (URL arts))"
      "Artifacts.settings arts = Some gs" "differOutsideModes gs ?s"
    using that by (intro audit_raises) (simp add: auditArtifacts_cases)
  have evaluator: "fst (auditAndReport env opts (Date_now env 0) arts) = Inl (Collaborator m)"
    if "auditArtifacts env arts opts = evaluate env arts (config opts) ads"
      "AuditRunner_run env ?s ads
         \<lparr>computed = instantiateComputedArtifacts env, base = arts\<rparr> = Inl m"
    using that by (intro audit_raises) (simp add: evaluate_call)
  have norecord: "fst (run env conn opts) \<noteq> Inr r" if "?RR err"
    using that by (simp add: raisedAndReported_def)
  have unchanged: "fst (run env conn opts) = Inl err"
    if "?RR err" "captureException env err Fatal = Inr ()"
    using that by (simp add: raisedAndReported_def rethrown_resolved)
  show ?thesis
    apply (intro conjI impI)
    subgoal using load by blast
    subgoal using nopasses by blast
    subgoal using nourl by blast
    subgoal using badurl by blast
    subgoal using collector by blast
    subgoal using save by blast
    subgoal using later [OF _ _ _ noaudits] by blast
    subgoal using later [OF _ _ _ target] by blast
    subgoal using later [OF _ _ _ settings] by blast
    subgoal using later [OF _ _ _ evaluator] by blast
    subgoal using later [OF _ _ _ scorer_raises] by blast
    subgoal using later [OF _ _ _ strings_raise] by blast
    subgoal using later [OF _ _ _ localizer_raises] by blast
    subgoal using later [OF _ _ _ renderer_raises] by blast
    subgoal using RR by blast
    subgoal using norecord by blast
    subgoal using unchanged by blast
    done
qed

theorem C9_error_reported_once_and_rethrown_witness:
  "fst (run env0 ''connection'' (runOpts0\<lparr>url := None\<rparr>)) = Inl (MissingTarget None)
   \<and> filter isCaptureException (snd (run env0 ''connection'' (runOpts0\<lparr>url := None\<rparr>)))
     = [CaptureException (MissingTarget None) Fatal]
   \<and> fst (run (env0\<lparr>GatherRunner_run := \<lambda>href ps gatherOpts. Inl ''no page''\<rparr>)
             ''connection'' runOpts0)
     = Inl (Collaborator ''no page'')
   \<and> filter isCaptureException
        (snd (run (env0\<lparr>GatherRunner_run := \<lambda>href ps gatherOpts. Inl ''no page''\<rparr>)
                ''connection'' runOpts0))
     = [CaptureException (Collaborator ''no page'') Fatal]
   \<and> fst (run (env0\<lparr>generateReport := \<lambda>lhr output. Inl ''no template''\<rparr>)
             ''connection'' runOpts0)
     = Inl (Collaborator ''no template'')
   \<and> filter isCaptureException
        (snd (run (env0\<lparr>generateReport := \<lambda>lhr output. Inl ''no template''\<rparr>)
                ''connection'' runOpts0))
     = [CaptureException (Collaborator ''no template'') Fatal]"
proof -
  let ?envC = "env0\<lparr>GatherRunner_run := \<lambda>href ps gatherOpts. Inl ''no page''\<rparr>"
  let ?envR = "env0\<lparr>generateReport := \<lambda>lhr output. Inl ''no template''\<rparr>"
  have modes: "shouldGather settings0" "shouldAudit settings0" "\<not> truthy (gatherMode settings0)"
    by (simp_all add: shouldGather_def shouldAudit_def js_or_def strict_eq_def gatherMode_def
        auditMode_def get_field_def settings0_def)
  have cfg: "Config.settings (config (runOpts0\<lparr>url := u\<rparr>)) = settings0"
    "passes (config (runOpts0\<lparr>url := u\<rparr>)) = Some [''defaultPass'']"
    "Config.settings (config runOpts0) = settings0"
    "passes (config runOpts0) = Some [''defaultPass'']"
    "url runOpts0 = Some ''http://example.com''" "RunOpts.driverMock runOpts0 = None"
    "Config.audits (config runOpts0) = Some [''auditA'']"
    "Config.categories (config runOpts0)
       = Some [\<lparr>category_id = ''cat1'', auditRefs = [(''auditA'', 1)]\<rparr>]" for u
    by (simp_all add: runOpts0_def config0_def)
  have sink: "rethrown ?envC err = Inl err" "rethrown ?envR err = Inl err" for err
    by (simp_all add: rethrown_def env0_def)
  \<comment> \<open>a check\<close>
  have "raisedAndReported env0 ''connection'' (runOpts0\<lparr>url := None\<rparr>) (MissingTarget None)"
    using C9_error_reported_once_and_rethrown [where env = env0 and conn = "''connection''"
        and opts = "runOpts0\<lparr>url := None\<rparr>" and ps = "[''defaultPass'']",
        THEN conjunct2, THEN conjunct2, THEN conjunct1] modes(1)
    by (simp add: cfg)
  then have a: "fst (run env0 ''connection'' (runOpts0\<lparr>url := None\<rparr>)) = Inl (MissingTarget None)
      \<and> filter isCaptureException (snd (run env0 ''connection'' (runOpts0\<lparr>url := None\<rparr>)))
        = [CaptureException (MissingTarget None) Fatal]"
    unfolding raisedAndReported_def rethrown_env0 by blast
  \<comment> \<open>the collector\<close>
  have href: "URL_href ?envC ''http://example.com'' = Some ''http://example.com/''"
    "GatherRunner_run ?envC ''http://example.com/'' [''defaultPass'']
       \<lparr>GatherOpts.settings = settings0, connection = ''connection'', driverMock = None\<rparr>
     = Inl ''no page''"
    by (simp_all add: env0_def href0_def)
  have "raisedAndReported ?envC ''connection'' runOpts0 (Collaborator ''no page'')"
    using C9_error_reported_once_and_rethrown [where env = ?envC and conn = "''connection''"
        and opts = runOpts0 and ps = "[''defaultPass'']" and u = "''http://example.com''"
        and href = "''http://example.com/''" and m = "''no page''",
        THEN conjunct2, THEN conjunct2, THEN conjunct2, THEN conjunct2, THEN conjunct1]
      modes(1) href
    by (simp add: cfg)
  then have b: "fst (run ?envC ''connection'' runOpts0) = Inl (Collaborator ''no page'')
      \<and> filter isCaptureException (snd (run ?envC ''connection'' runOpts0))
        = [CaptureException (Collaborator ''no page'') Fatal]"
    unfolding raisedAndReported_def sink by blast
  \<comment> \<open>the renderer, at the end of the run\<close>
  have env: "URL_href ?envR = href0"
    "GatherRunner_run ?envR = (\<lambda>href ps gatherOpts. Inr artifacts0)"
    "AuditRunner_run ?envR = (\<lambda>s ads fullArtifacts. Inr ([auditA], [''audit warning'']))"
    "scoreAllCategories ?envR = (\<lambda>cs byId. Inr (scoreEach cs))"
    "getRendererFormattedStrings ?envR = (\<lambda>locale. Inr ''strings'')"
    "replaceIcuMessageInstanceIds ?envR = (\<lambda>lhr locale. Inr (lhr, []))"
    "generateReport ?envR = (\<lambda>lhr output. Inl ''no template'')"
    "URL_equalWithExcludedFragments ?envR = URL_equalWithExcludedFragments env0"
    by (simp_all add: env0_def)
  have gathered: "fst (gatherArtifacts ?envR ''connection'' runOpts0) = Inr artifacts0"
    using modes(1) by (simp add: gatherArtifacts_cases cfg env href0_def)
  have saved: "fst (saveStep ?envR (Config.settings (config runOpts0)) artifacts0) = Inr ()"
    using modes(3) by (simp add: fst_saveStep cfg)
  have target: "\<not> urlMismatch ?envR (url runOpts0) (ArtifactsURL.requestedUrl (URL artifacts0))"
    by (simp add: urlMismatch_def env0_def href0_def runOpts0_def artifacts0_def
        equalWithExcludedFragments_def withoutFragment_def)
  have audited: "fst (auditArtifacts ?envR artifacts0 runOpts0)
      = Inr ([auditA], [''audit warning''])"
    using target by (simp add: auditArtifacts_cases evaluate_call cfg env artifacts0_def)
  have cats: "scored ?envR runOpts0 [auditA]
      (scoreEach [\<lparr>category_id = ''cat1'', auditRefs = [(''auditA'', 1)]\<rparr>])"
    by (simp add: scored_def cfg env)
  have "raisedAndReported ?envR ''connection'' runOpts0 (Collaborator ''no template'')"
    using C9_error_reported_once_and_rethrown [where env = ?envR and conn = "''connection''"
        and opts = runOpts0 and arts = artifacts0 and rs = "[auditA]"
        and ws = "[''audit warning'']" and strings = "''strings''" and m = "''no template''"
        and cats = "scoreEach [\<lparr>category_id = ''cat1'', auditRefs = [(''auditA'', 1)]\<rparr>]"
        and lhrL = "assembled ?envR runOpts0 artifacts0 [auditA] [''audit warning'']
            (scoreEach [\<lparr>category_id = ''cat1'', auditRefs = [(''auditA'', 1)]\<rparr>]) ''strings''"
        and paths = "[]"]
      gathered saved modes(2) audited cats
    by (simp add: cfg env)
  then have c: "fst (run ?envR ''connection'' runOpts0) = Inl (Collaborator ''no template'')
      \<and> filter isCaptureException (snd (run ?envR ''connection'' runOpts0))
        = [CaptureException (Collaborator ''no template'') Fatal]"
    unfolding raisedAndReported_def sink by blast
  from a b c show ?thesis by blast
qed

lemma isSaveArtifacts_step: "isSaveArtifacts ev = (step_of ev = Persisting)"
  by (cases ev) simp_all

lemma run_saves:
  "filter isSaveArtifacts (snd (run env conn opts))
     = (case fst (gatherArtifacts env conn opts) of
          Inl e \<Rightarrow> []
        | Inr arts \<Rightarrow>
          if truthy (gatherMode (Config.settings (config opts)))
          then [SaveArtifacts arts (getArtifactsPath env (Config.settings (config opts)))]
          else [])"
proof -
  have g: "filter isSaveArtifacts (snd (gatherArtifacts env conn opts)) = []"
    using gather_steps [of env conn opts] by (simp add: filter_empty_conv isSaveArtifacts_step)
  have a: "filter isSaveArtifacts (snd (auditAndReport env opts t0 arts)) = []" for t0 arts
    using auditAndReport_steps [of env opts t0 arts]
    by (auto simp: filter_empty_conv isSaveArtifacts_step)
  show ?thesis
    by (simp add: snd_run snd_run_try snd_saveStep g a split: sum.splits)
qed

lemma gather_in_run:
  "set (snd (gatherArtifacts env conn opts)) \<subseteq> set (snd (run env conn opts))"
  by (auto simp: snd_run snd_run_try)

text \<open>
  Claim C10: the store is asked to save exactly when the gather phase has returned
  artifacts and \<^verbatim>\<open>settings.gatherMode\<close> is truthy, and then once, with those artifacts and
  the resolved path. In a default full run (both flags unset) \<^verbatim>\<open>shouldGather\<close> is true and,
  with passes and a url that parses, the collector is called, yet the store is never
  asked to save.
\<close>

theorem C10_saved_iff_gatherMode:
  "filter isSaveArtifacts (snd (run env conn opts))
     = (case fst (gatherArtifacts env conn opts) of
          Inl e \<Rightarrow> []
        | Inr arts \<Rightarrow>
          if truthy (gatherMode (Config.settings (config opts)))
          then [SaveArtifacts arts (getArtifactsPath env (Config.settings (config opts)))]
          else [])
   \<and> (unset (gatherMode (Config.settings (config opts)))
        \<and> gatherMode (Config.settings (config opts)) = auditMode (Config.settings (config opts))
      \<longrightarrow> shouldGather (Config.settings (config opts))
        \<and> filter isSaveArtifacts (snd (run env conn opts)) = []
        \<and> (passes (config opts) = Some ps \<and> url opts = Some u \<and> u \<noteq> []
             \<and> URL_href env u = Some href
           \<longrightarrow> GatherRun href ps \<lparr>GatherOpts.settings = Config.settings (config opts),
                   connection = conn, driverMock = RunOpts.driverMock opts\<rparr>
                 \<in> set (snd (run env conn opts))))"
proof -
  let ?s = "Config.settings (config opts)"
  have falsy: "\<not> truthy (gatherMode ?s)" if "unset (gatherMode ?s)"
    using that by (auto simp: unset_def)
  have default: "shouldGather ?s" if "gatherMode ?s = auditMode ?s"
    using that by (simp add: shouldGather_iff)
  have nosave: "filter isSaveArtifacts (snd (run env conn opts)) = []"
    if "unset (gatherMode ?s)"
    using falsy [OF that] by (simp add: run_saves split: sum.splits)
  have collector: "GatherRun href ps \<lparr>GatherOpts.settings = ?s,
                   connection = conn, driverMock = RunOpts.driverMock opts\<rparr>
                 \<in> set (snd (run env conn opts))"
    if "gatherMode ?s = auditMode ?s" "passes (config opts) = Some ps" "url opts = Some u"
      "u \<noteq> []" "URL_href env u = Some href"
  proof -
    from that default have "snd (gatherArtifacts env conn opts)
        = [GatherRun href ps \<lparr>GatherOpts.settings = ?s,
             connection = conn, driverMock = RunOpts.driverMock opts\<rparr>]"
      by (simp add: gatherArtifacts_cases)
    with gather_in_run [of env conn opts] show ?thesis by simp
  qed
  from run_saves [of env conn opts] default nosave collector show ?thesis by blast
qed

theorem C10_saved_iff_gatherMode_witness:
  "filter isSaveArtifacts (snd (run env0 ''connection'' runOpts0)) = []
   \<and> GatherRun ''http://example.com/'' [''defaultPass'']
        \<lparr>GatherOpts.settings = settings0, connection = ''connection'', driverMock = None\<rparr>
      \<in> set (snd (run env0 ''connection'' runOpts0))
   \<and> shouldGather settings0"
proof -
  have s: "Config.settings (config runOpts0) = settings0"
    by (simp add: runOpts0_def config0_def)
  have modes: "unset (gatherMode settings0)" "gatherMode settings0 = auditMode settings0"
    by (simp_all add: unset_def gatherMode_def auditMode_def get_field_def settings0_def)
  have given: "passes (config runOpts0) = Some [''defaultPass'']"
    "url runOpts0 = Some ''http://example.com''" "RunOpts.driverMock runOpts0 = None"
    "URL_href env0 ''http://example.com'' = Some ''http://example.com/''"
    by (simp_all add: runOpts0_def config0_def env0_def href0_def)
  show ?thesis
    using C10_saved_iff_gatherMode [where env = env0 and conn = "''connection''"
        and opts = runOpts0 and ps = "[''defaultPass'']" and u = "''http://example.com''"
        and href = "''http://example.com/''", THEN conjunct2] modes given
    by (simp add: s)
qed

text \<open>
  Claim C7, as stated, at \<^verbatim>\<open>gatherMode = ''\<close> and \<^verbatim>\<open>auditMode = false\<close>: \<^verbatim>\<open>shouldAudit\<close> is
  false and the run returns \<^verbatim>\<open>undefined\<close>, but \<^verbatim>\<open>shouldGather\<close> is false as well: the
  artifacts are loaded from the store and nothing is saved.
\<close>

theorem C7_nothing_saved_counterexample:
  "\<not> shouldAudit (settings0(''gatherMode'' \<mapsto> JStr []))
   \<and> run env0 ''connection''
       (runOpts0\<lparr>config := config0\<lparr>Config.settings := settings0(''gatherMode'' \<mapsto> JStr [])\<rparr>\<rparr>)
     = (Inr None, [CaptureBreadcrumb ''Run started'', LoadArtifacts ''/work/''])"
  by (simp add: run_def run_try_phases gatherArtifacts_cases saveStep_def ret_def
      shouldGather_def shouldAudit_def js_or_def strict_eq_def gatherMode_def auditMode_def
      get_field_def getArtifactsPath_def settings0_def env0_def)

lemma run_no_report_steps:
  assumes "\<not> shouldAudit (Config.settings (config opts))"
  shows "filter (\<lambda>ev. step_of ev = Evaluating \<or> step_of ev = Reporting)
     (snd (run env conn opts)) = []"
proof -
  have "\<not> (step_of ev = Evaluating \<or> step_of ev = Reporting)"
    if "ev \<in> set (snd (run_try env conn opts))" for ev
    using run_try_steps [of env conn opts] that assms by auto
  then have "filter (\<lambda>ev. step_of ev = Evaluating \<or> step_of ev = Reporting)
     (snd (run_try env conn opts)) = []"
    by (simp add: filter_empty_conv)
  then show ?thesis
    by (simp add: snd_run split: sum.splits)
qed

text \<open>
  Claim C7, amended: a run in which \<^verbatim>\<open>shouldAudit\<close> is false never returns a report (it
  returns \<^verbatim>\<open>undefined\<close> or raises) and makes no call of the evaluation, scoring,
  localization or rendering steps. When moreover \<^verbatim>\<open>gatherMode\<close> is truthy (a collect-only
  run), collection is required, and a run that returns has called the store, which
  succeeded, to save the gathered artifacts at the resolved path as its last call.
\<close>

theorem C7_collect_only:
  assumes "\<not> shouldAudit (Config.settings (config opts))"
  shows "fst (run env conn opts) \<noteq> Inr (Some r)
     \<and> filter (\<lambda>ev. step_of ev = Evaluating \<or> step_of ev = Reporting)
         (snd (run env conn opts)) = []
     \<and> (truthy (gatherMode (Config.settings (config opts)))
          \<longrightarrow> shouldGather (Config.settings (config opts)))
     \<and> (truthy (gatherMode (Config.settings (config opts)))
          \<and> fst (run env conn opts) = Inr None
        \<longrightarrow> (\<exists>arts. fst (gatherArtifacts env conn opts) = Inr arts
              \<and> saveArtifacts env arts (getArtifactsPath env (Config.settings (config opts)))
                  = Inr ()
              \<and> snd (run env conn opts)
                  = CaptureBreadcrumb ''Run started'' # snd (gatherArtifacts env conn opts)
                    @ [SaveArtifacts arts
                         (getArtifactsPath env (Config.settings (config opts)))]))"
proof -
  let ?s = "Config.settings (config opts)"
  have norecord: "fst (run env conn opts) \<noteq> Inr (Some r)"
    using assms by (simp add: fst_run fst_run_try split: sum.splits)
  have gather: "shouldGather ?s" if "truthy (gatherMode ?s)"
    using that by (simp add: shouldGather_iff)
  have saved: "\<exists>arts. fst (gatherArtifacts env conn opts) = Inr arts
              \<and> saveArtifacts env arts (getArtifactsPath env ?s) = Inr ()
              \<and> snd (run env conn opts)
                  = CaptureBreadcrumb ''Run started'' # snd (gatherArtifacts env conn opts)
                    @ [SaveArtifacts arts (getArtifactsPath env ?s)]"
    if t: "truthy (gatherMode ?s)" and ok: "fst (run env conn opts) = Inr None"
  proof (cases "fst (gatherArtifacts env conn opts)")
    case (Inl e)
    with ok show ?thesis by (simp add: fst_run fst_run_try)
  next
    case (Inr arts)
    show ?thesis
    proof (cases "saveArtifacts env arts (getArtifactsPath env ?s)")
      case (Inl m)
      with ok Inr t show ?thesis by (simp add: fst_run fst_run_try fst_saveStep)
    next
      case (Inr u)
      with \<open>fst (gatherArtifacts env conn opts) = Inr arts\<close> t assms show ?thesis
        by (simp add: snd_run snd_run_try fst_run_try fst_saveStep snd_saveStep)
    qed
  qed
  from norecord run_no_report_steps [OF assms] gather saved show ?thesis by blast
qed

theorem C7_collect_only_witness:
  "run env0 ''connection''
     (runOpts0\<lparr>config := config0\<lparr>Config.settings := settings0(''gatherMode'' \<mapsto> JStr ''./out'')\<rparr>\<rparr>)
   = (Inr None,
      [CaptureBreadcrumb ''Run started'',
       GatherRun ''http://example.com/'' [''defaultPass'']
         \<lparr>GatherOpts.settings = settings0(''gatherMode'' \<mapsto> JStr ''./out''),
          connection = ''connection'', driverMock = None\<rparr>,
       SaveArtifacts artifacts0 ''/work/./out''])"
proof -
  let ?s = "settings0(''gatherMode'' \<mapsto> JStr ''./out'')"
  let ?opts = "runOpts0\<lparr>config := config0\<lparr>Config.settings := ?s\<rparr>\<rparr>"
  have s: "Config.settings (config ?opts) = ?s"
    by simp
  have modes: "\<not> shouldAudit ?s" "truthy (gatherMode ?s)"
    by (simp_all add: shouldAudit_def js_or_def strict_eq_def gatherMode_def auditMode_def
        get_field_def settings0_def)
  have gather: "gatherArtifacts env0 ''connection'' ?opts
     = (Inr artifacts0,
        [GatherRun ''http://example.com/'' [''defaultPass'']
           \<lparr>GatherOpts.settings = ?s, connection = ''connection'', driverMock = None\<rparr>])"
    using modes(2)
    by (simp add: gatherArtifacts_cases shouldGather_iff runOpts0_def config0_def env0_def
        href0_def)
  have path: "getArtifactsPath env0 ?s = ''/work/./out''"
    by (simp add: getArtifactsPath_def gatherMode_def auditMode_def get_field_def settings0_def
        env0_def)
  have returned: "fst (run env0 ''connection'' ?opts) = Inr None"
    using modes gather
    by (simp add: fst_run fst_run_try fst_saveStep env0_def)
  show ?thesis
    using C7_collect_only [where env = env0 and conn = "''connection''" and opts = ?opts]
      modes gather path returned
    by (simp add: prod_eq_iff)
qed



section \<open>The report of a run that returns one\<close>

lemma resultsById_snoc [simp]:
  "resultsById (rs @ [a]) = (resultsById rs)(audit_id a \<mapsto> a)"
  by (simp add: resultsById_def)

lemma resultsById_Nil [simp]: "resultsById [] = Map.empty"
  by (simp add: resultsById_def)

lemma resultsById_map_of:
  "resultsById rs = map_of (rev (map (\<lambda>a. (audit_id a, a)) rs))"
  by (induction rs rule: rev_induct) simp_all

lemma auditAndReport_returns:
  assumes "fst (auditAndReport env opts (Date_now env 0) arts) = Inr r"
  shows "\<exists>rs ws cats strings lhr1 paths rendered.
      fst (auditArtifacts env arts opts) = Inr (rs, ws)
    \<and> scored env opts rs cats
    \<and> getRendererFormattedStrings env (get_field (Config.settings (config opts)) ''locale'')
        = Inr strings
    \<and> replaceIcuMessageInstanceIds env (assembled env opts arts rs ws cats strings)
          (get_field (Config.settings (config opts)) ''locale'')
        = Inr (lhr1, paths)
    \<and> ReplaceIcuMessageInstanceIds (assembled env opts arts rs ws cats strings)
          (get_field (Config.settings (config opts)) ''locale'')
        \<in> set (snd (auditAndReport env opts (Date_now env 0) arts))
    \<and> generateReport env (localized lhr1 paths)
          (get_field (Config.settings (config opts)) ''output'')
        = Inr rendered
    \<and> r = Some \<lparr>lhr = localized lhr1 paths, artifacts = arts, report = rendered\<rparr>"
  using assms
  by (cases "Config.categories (config opts)")
     (auto simp: auditAndReport_def Let_def fst_bind snd_bind split_beta ret_def tell_def
        call_def scored_def assembled_def collectionWarnings_def localized_def
        split: sum.splits)

lemma run_returns_report:
  assumes "fst (run env conn opts) = Inr (Some res)"
  shows "\<exists>arts. fst (gatherArtifacts env conn opts) = Inr arts
     \<and> shouldAudit (Config.settings (config opts))
     \<and> fst (auditAndReport env opts (Date_now env 0) arts) = Inr (Some res)
     \<and> set (snd (auditAndReport env opts (Date_now env 0) arts))
         \<subseteq> set (snd (run env conn opts))"
  using assms
  by (auto simp: fst_run fst_run_try snd_run snd_run_try split: sum.splits if_splits)

lemma auditArtifacts_returns:
  assumes "fst (auditArtifacts env arts opts) = Inr (rs, ws)"
  shows "\<exists>ads. Config.audits (config opts) = Some ads
     \<and> AuditRunner_run env (Config.settings (config opts)) ads
          \<lparr>computed = instantiateComputedArtifacts env, base = arts\<rparr> = Inr (rs, ws)"
  using assms
  by (auto simp: auditArtifacts_cases evaluate_call split: option.splits if_splits)

lemma assembled_fields:
  "runWarnings (assembled env opts arts rs ws cats strings) = ws @ collectionWarnings arts"
  "timing_total (assembled env opts arts rs ws cats strings) = Date_now env 1 - Date_now env 0"
  "LHR.audits (assembled env opts arts rs ws cats strings) = resultsById rs"
  "LHR.categories (assembled env opts arts rs ws cats strings) = cats"
  by (simp_all add: assembled_def assemble_def)

lemma example_modes:
  "shouldGather settings0" "shouldAudit settings0" "\<not> truthy (gatherMode settings0)"
  by (simp_all add: shouldGather_def shouldAudit_def js_or_def strict_eq_def gatherMode_def
      auditMode_def get_field_def settings0_def)

lemma example_config:
  "config runOpts0 = config0" "Config.settings config0 = settings0"
  "Config.audits config0 = Some [''auditA'']"
  "Config.categories config0 = Some [\<lparr>category_id = ''cat1'', auditRefs = [(''auditA'', 1)]\<rparr>]"
  "passes config0 = Some [''defaultPass'']" "url runOpts0 = Some ''http://example.com''"
  "RunOpts.driverMock runOpts0 = None" "groups config0 = None"
  by (simp_all add: runOpts0_def config0_def)

text \<open>
  Claim C8, as stated, at a clock that is set back between the two readings of the
  run and a localizer that replaces the collection warning by its text: the run
  returns a report, the evaluator warned \<^verbatim>\<open>'audit warning'\<close> and the collector \<^verbatim>\<open>'slow page'\<close>,
  yet \<^verbatim>\<open>timing.total\<close> of the returned record is \<open>-1\<close> and its run warnings end with the
  localized text.
\<close>

theorem C8_clock_and_localizer_counterexample:
  "map_option timing_total (reportOf (run env1 ''connection'' runOpts0)) = Some (- 1)
   \<and> map_option runWarnings (reportOf (run env1 ''connection'' runOpts0))
       = Some [''audit warning'', ''Seite langsam'']
   \<and> AuditRunner_run env1 settings0 [''auditA'']
         \<lparr>computed = instantiateComputedArtifacts env1, base = artifacts0\<rparr>
       = Inr ([auditA], [''audit warning''])
   \<and> gatherArtifacts env1 ''connection'' runOpts0
       = (Inr artifacts0,
          [GatherRun ''http://example.com/'' [''defaultPass'']
             \<lparr>GatherOpts.settings = settings0, connection = ''connection'', driverMock = None\<rparr>])
   \<and> LighthouseRunWarnings artifacts0 = Some [''slow page'']"
proof -
  have env: "URL_href env1 = href0"
    "GatherRunner_run env1 = (\<lambda>href ps gatherOpts. Inr artifacts0)"
    "AuditRunner_run env1 = (\<lambda>s ads fullArtifacts. Inr ([auditA], [''audit warning'']))"
    "scoreAllCategories env1 = (\<lambda>cs byId. Inr (scoreEach cs))"
    "getRendererFormattedStrings env1 = (\<lambda>locale. Inr ''strings'')"
    "generateReport env1 = (\<lambda>lhr output. Inr ''report'')"
    "Date_now env1 = (\<lambda>k. 1000 - int k)"
    "replaceIcuMessageInstanceIds env1 = (\<lambda>lhr locale.
       Inr (lhr\<lparr>runWarnings :=
               map (\<lambda>w. if w = ''slow page'' then ''Seite langsam'' else w) (runWarnings lhr)\<rparr>,
            [(''slow page'', ''runWarnings[1]'')]))"
    by (simp_all add: env1_def env0_def)
  have gathered: "gatherArtifacts env1 ''connection'' runOpts0
       = (Inr artifacts0,
          [GatherRun ''http://example.com/'' [''defaultPass'']
             \<lparr>GatherOpts.settings = settings0, connection = ''connection'', driverMock = None\<rparr>])"
    using example_modes(1)
    by (simp add: gatherArtifacts_cases example_config env href0_def)
  have saved: "fst (saveStep env1 settings0 artifacts0) = Inr ()"
    using example_modes(3) by (simp add: fst_saveStep)
  have target: "\<not> urlMismatch env1 (url runOpts0) (ArtifactsURL.requestedUrl (URL artifacts0))"
    by (simp add: urlMismatch_def env1_def env0_def href0_def runOpts0_def artifacts0_def
        equalWithExcludedFragments_def withoutFragment_def)
  have audited: "fst (auditArtifacts env1 artifacts0 runOpts0)
      = Inr ([auditA], [''audit warning''])"
    using target
    by (simp add: auditArtifacts_cases evaluate_call example_config env artifacts0_def)
  have warned: "LighthouseRunWarnings artifacts0 = Some [''slow page'']"
    by (simp add: artifacts0_def)
  have "fst (auditAndReport env1 runOpts0 (Date_now env1 0) artifacts0)
      = Inr (Some \<lparr>lhr = localized
            ((assembled env1 runOpts0 artifacts0 [auditA] [''audit warning'']
               (scoreEach [\<lparr>category_id = ''cat1'', auditRefs = [(''auditA'', 1)]\<rparr>])
               ''strings'')
             \<lparr>runWarnings := [''audit warning'', ''Seite langsam'']\<rparr>)
            [(''slow page'', ''runWarnings[1]'')],
          artifacts = artifacts0, report = ''report''\<rparr>)"
    using audited
    by (simp add: auditAndReport_def Let_def fst_bind split_beta tell_def call_def ret_def
        example_config env assembled_def assemble_def collectionWarnings_def localized_def
        warned)
  with gathered saved example_modes(2)
  have "fst (run env1 ''connection'' runOpts0)
      = Inr (Some \<lparr>lhr = localized
            ((assembled env1 runOpts0 artifacts0 [auditA] [''audit warning'']
               (scoreEach [\<lparr>category_id = ''cat1'', auditRefs = [(''auditA'', 1)]\<rparr>])
               ''strings'')
             \<lparr>runWarnings := [''audit warning'', ''Seite langsam'']\<rparr>)
            [(''slow page'', ''runWarnings[1]'')],
          artifacts = artifacts0, report = ''report''\<rparr>)"
    by (simp add: fst_run fst_run_try example_config)
  then have "map_option timing_total (reportOf (run env1 ''connection'' runOpts0)) = Some (- 1)"
    and "map_option runWarnings (reportOf (run env1 ''connection'' runOpts0))
       = Some [''audit warning'', ''Seite langsam'']"
    by (simp_all add: reportOf_def localized_def assembled_def assemble_def env)
  with gathered warned show ?thesis
    by (simp add: env)
qed

text \<open>
  Claim C8, amended: a run that returns a report has called the evaluator, which
  returned results \<open>rs\<close> and warnings \<open>ws\<close>, and has assembled a record that it handed to
  the localizer; the returned record is what the localizer returned for it, with the
  replaced paths. In the assembled record the audits are those of \<open>rs\<close> by id, the last
  result winning where an id repeats: when \<open>rs\<close> is the one result
  \<^verbatim>\<open>{id: 'auditA', score: 1}\<close>, \<^verbatim>\<open>audits['auditA'].score\<close> is 1. Its categories are what the
  scorer returned: empty when \<^verbatim>\<open>config.categories\<close> is absent, with a record for every
  configured category when the scorer returns one for each. Its \<^verbatim>\<open>timing.total\<close> is the
  second reading of the clock minus the first, so it is not negative exactly when the
  clock has not gone back. Its run warnings are \<open>ws\<close> followed by
  \<^verbatim>\<open>artifacts.LighthouseRunWarnings\<close> (none when that is absent).
\<close>

theorem C8_report_record:
  assumes returned: "fst (run env conn opts) = Inr (Some res)"
  shows "\<exists>ads rs ws cats lhr0 lhr1 paths.
      fst (gatherArtifacts env conn opts) = Inr (artifacts res)
    \<and> Config.audits (config opts) = Some ads
    \<and> AuditRunner_run env (Config.settings (config opts)) ads
         \<lparr>computed = instantiateComputedArtifacts env, base = artifacts res\<rparr> = Inr (rs, ws)
    \<and> scored env opts rs cats
    \<and> ReplaceIcuMessageInstanceIds lhr0 (get_field (Config.settings (config opts)) ''locale'')
        \<in> set (snd (run env conn opts))
    \<and> replaceIcuMessageInstanceIds env lhr0
          (get_field (Config.settings (config opts)) ''locale'') = Inr (lhr1, paths)
    \<and> lhr res = localized lhr1 paths
    \<and> LHR.audits lhr0 = map_of (rev (map (\<lambda>a. (audit_id a, a)) rs))
    \<and> (\<forall>a. rs = [a] \<and> audit_id a = ''auditA'' \<and> score a = JNum 1
          \<longrightarrow> map_option score (LHR.audits lhr0 ''auditA'') = Some (JNum 1))
    \<and> LHR.categories lhr0 = cats
    \<and> (Config.categories (config opts) = None \<longrightarrow> LHR.categories lhr0 = Map.empty)
    \<and> (\<forall>cs c. scoresEveryCategory env \<and> Config.categories (config opts) = Some cs \<and> c \<in> set cs
          \<longrightarrow> LHR.categories lhr0 (category_id c) \<noteq> None)
    \<and> timing_total lhr0 = Date_now env 1 - Date_now env 0
    \<and> (0 \<le> timing_total lhr0) = (Date_now env 0 \<le> Date_now env 1)
    \<and> runWarnings lhr0 = ws @ collectionWarnings (artifacts res)"
proof -
  let ?loc = "get_field (Config.settings (config opts)) ''locale''"
  from run_returns_report [OF returned] obtain arts where
    gathered: "fst (gatherArtifacts env conn opts) = Inr arts"
    and report: "fst (auditAndReport env opts (Date_now env 0) arts) = Inr (Some res)"
    and trace: "set (snd (auditAndReport env opts (Date_now env 0) arts))
         \<subseteq> set (snd (run env conn opts))"
    by blast
  from auditAndReport_returns [OF report] obtain rs ws cats strings lhr1 paths rendered where
    audited: "fst (auditArtifacts env arts opts) = Inr (rs, ws)"
    and scored: "scored env opts rs cats"
    and localized: "replaceIcuMessageInstanceIds env (assembled env opts arts rs ws cats strings)
          ?loc = Inr (lhr1, paths)"
    and handed: "ReplaceIcuMessageInstanceIds (assembled env opts arts rs ws cats strings) ?loc
        \<in> set (snd (auditAndReport env opts (Date_now env 0) arts))"
    and res: "res = \<lparr>lhr = localized lhr1 paths, artifacts = arts, report = rendered\<rparr>"
    by blast
  let ?lhr0 = "assembled env opts arts rs ws cats strings"
  from auditArtifacts_returns [OF audited] obtain ads where
    ads: "Config.audits (config opts) = Some ads"
    and evaluated: "AuditRunner_run env (Config.settings (config opts)) ads
          \<lparr>computed = instantiateComputedArtifacts env, base = arts\<rparr> = Inr (rs, ws)"
    by blast
  have arts: "artifacts res = arts" and lhr: "lhr res = localized lhr1 paths"
    by (simp_all add: res)
  from handed trace have intrace: "ReplaceIcuMessageInstanceIds ?lhr0 ?loc
      \<in> set (snd (run env conn opts))"
    by blast
  have warnings: "runWarnings ?lhr0 = ws @ collectionWarnings arts"
    by (simp add: assembled_fields)
  have timing: "timing_total ?lhr0 = Date_now env 1 - Date_now env 0"
    by (simp add: assembled_fields)
  then have sign: "(0 \<le> timing_total ?lhr0) = (Date_now env 0 \<le> Date_now env 1)"
    by simp
  have byId: "LHR.audits ?lhr0 = map_of (rev (map (\<lambda>a. (audit_id a, a)) rs))"
    by (simp add: assembled_fields resultsById_map_of)
  have one: "map_option score (LHR.audits ?lhr0 ''auditA'') = Some (JNum 1)"
    if "rs = [a]" "audit_id a = ''auditA''" "score a = JNum 1" for a
    using that by (simp add: assembled_fields resultsById_def)
  have cats: "LHR.categories ?lhr0 = cats"
    by (simp add: assembled_fields)
  have absent: "LHR.categories ?lhr0 = Map.empty"
    if "Config.categories (config opts) = None"
    using that scored by (simp add: assembled_fields scored_def)
  have present: "LHR.categories ?lhr0 (category_id c) \<noteq> None"
    if "scoresEveryCategory env" "Config.categories (config opts) = Some cs" "c \<in> set cs"
    for cs c
  proof -
    from that(2) scored have "scoreAllCategories env cs (resultsById rs) = Inr cats"
      by (simp add: scored_def)
    with that(1,3) have "cats (category_id c) \<noteq> None"
      unfolding scoresEveryCategory_def by blast
    then show ?thesis by (simp add: cats)
  qed
  show ?thesis
    unfolding arts
    apply (rule exI [of _ ads], rule exI [of _ rs], rule exI [of _ ws], rule exI [of _ cats],
        rule exI [of _ ?lhr0], rule exI [of _ lhr1], rule exI [of _ paths])
    apply (intro conjI)
    subgoal by (rule gathered)
    subgoal by (rule ads)
    subgoal by (rule evaluated)
    subgoal by (rule scored)
    subgoal by (rule intrace)
    subgoal by (rule localized)
    subgoal by (rule lhr)
    subgoal by (rule byId)
    subgoal using one by blast
    subgoal by (rule cats)
    subgoal using absent by blast
    subgoal using present by blast
    subgoal by (rule timing)
    subgoal by (rule sign)
    subgoal by (rule warnings)
    done
qed

theorem C8_report_record_witness:
  "\<exists>res. fst (run env0 ''connection'' runOpts0) = Inr (Some res)
     \<and> map_option score (LHR.audits (lhr res) ''auditA'') = Some (JNum 1)
     \<and> LHR.categories (lhr res) ''cat1'' \<noteq> None
     \<and> 0 \<le> timing_total (lhr res)
     \<and> runWarnings (lhr res) = [''audit warning'', ''slow page'']"
proof -
  have gathered: "fst (gatherArtifacts env0 ''connection'' runOpts0) = Inr artifacts0"
    using example_modes(1)
    by (simp add: gatherArtifacts_cases example_config) (simp add: env0_def href0_def)
  have target: "\<not> urlMismatch env0 (url runOpts0) (ArtifactsURL.requestedUrl (URL artifacts0))"
    by (simp add: urlMismatch_def env0_def href0_def runOpts0_def artifacts0_def
        equalWithExcludedFragments_def withoutFragment_def)
  have given: "Artifacts.settings artifacts0 = None"
    by (simp add: artifacts0_def)
  have audited: "fst (auditArtifacts env0 artifacts0 runOpts0)
      = Inr ([auditA], [''audit warning''])"
    using target
    by (simp add: auditArtifacts_cases evaluate_call example_config given) (simp add: env0_def)
  have "\<exists>res. fst (auditAndReport env0 runOpts0 (Date_now env0 0) artifacts0) = Inr (Some res)"
    using audited
    by (simp add: auditAndReport_def Let_def fst_bind split_beta example_config tell_def ret_def)
       (simp add: env0_def call_def)
  then obtain res where "fst (auditAndReport env0 runOpts0 (Date_now env0 0) artifacts0)
      = Inr (Some res)"
    by blast
  with example_modes gathered
  have returned: "fst (run env0 ''connection'' runOpts0) = Inr (Some res)"
    by (simp add: fst_run fst_run_try fst_saveStep example_config)
  have "scoreEach cs (category_id c) \<noteq> None" if "c \<in> set cs" for cs c
    using that unfolding scoreEach_def by (induction cs) auto
  then have scorer: "scoresEveryCategory env0"
    by (auto simp: scoresEveryCategory_def env0_def)
  have clock: "Date_now env0 0 \<le> Date_now env0 1"
    by (simp add: env0_def)
  from C8_report_record [OF returned] obtain ads rs ws lhr0 lhr1 paths where
    arts: "fst (gatherArtifacts env0 ''connection'' runOpts0) = Inr (artifacts res)"
    and ev: "AuditRunner_run env0 (Config.settings (config runOpts0)) ads
         \<lparr>computed = instantiateComputedArtifacts env0, base = artifacts res\<rparr> = Inr (rs, ws)"
    and loc: "replaceIcuMessageInstanceIds env0 lhr0
          (get_field (Config.settings (config runOpts0)) ''locale'') = Inr (lhr1, paths)"
    and lhr: "lhr res = localized lhr1 paths"
    and one: "\<forall>a. rs = [a] \<and> audit_id a = ''auditA'' \<and> score a = JNum 1
          \<longrightarrow> map_option score (LHR.audits lhr0 ''auditA'') = Some (JNum 1)"
    and present: "\<forall>cs c. scoresEveryCategory env0 \<and> Config.categories (config runOpts0) = Some cs
          \<and> c \<in> set cs \<longrightarrow> LHR.categories lhr0 (category_id c) \<noteq> None"
    and timing: "(0 \<le> timing_total lhr0) = (Date_now env0 0 \<le> Date_now env0 1)"
    and warnings: "runWarnings lhr0 = ws @ collectionWarnings (artifacts res)"
    by blast
  from loc have same: "lhr1 = lhr0"
    by (simp add: env0_def)
  from arts gathered have a0: "artifacts res = artifacts0"
    by simp
  from ev have rs: "rs = [auditA]" and ws: "ws = [''audit warning'']"
    by (simp_all add: env0_def)
  from one rs have score: "map_option score (LHR.audits (lhr res) ''auditA'') = Some (JNum 1)"
    by (simp add: auditA_def lhr same localized_def)
  from present [THEN spec, THEN spec,
      of "[\<lparr>category_id = ''cat1'', auditRefs = [(''auditA'', 1)]\<rparr>]"
        "\<lparr>category_id = ''cat1'', auditRefs = [(''auditA'', 1)]\<rparr>"] scorer
  have cat: "LHR.categories (lhr res) ''cat1'' \<noteq> None"
    by (simp add: example_config lhr same localized_def)
  from timing clock have total: "0 \<le> timing_total (lhr res)"
    by (simp add: lhr same localized_def)
  from warnings have w: "runWarnings (lhr res) = [''audit warning'', ''slow page'']"
    by (simp add: a0 ws artifacts0_def collectionWarnings_def lhr same localized_def)
  from returned score cat total w show ?thesis
    by (intro exI [of _ res]) simp
qed

section \<open>The registry of computed artifacts\<close>

lemma after_Nil [simp]: "after [] reg = reg"
  by (simp add: after_def)

lemma after_snoc [simp]: "after (evs @ [e]) reg = happen (after evs reg) e"
  by (simp add: after_def)

lemma after_append: "after (evs @ evs') reg = after evs' (after evs reg)"
  by (simp add: after_def)

lemma consistent_new: "consistent (newRegistry ca)"
  by (simp add: consistent_def newRegistry_def)

lemma consistent_request: "consistent reg \<Longrightarrow> consistent (request name reg)"
  unfolding consistent_def request_def Let_def
  by (cases "requestFunctions reg (''request'' @ name)"; cases "cached reg name")
     (auto simp: less_Suc_eq dom_def)

lemma consistent_settle: "consistent reg \<Longrightarrow> consistent (settle name out reg)"
  unfolding consistent_def settle_def
  by (cases "cached reg name") auto

lemma consistent_happen: "consistent reg \<Longrightarrow> consistent (happen reg e)"
  by (cases e) (simp_all add: consistent_request consistent_settle)

lemma consistent_after: "consistent reg \<Longrightarrow> consistent (after evs reg)"
  by (induction evs rule: rev_induct) (simp_all add: consistent_happen)

lemma count_list_distinct: "distinct xs \<Longrightarrow> count_list xs x \<le> 1"
  by (induction xs) (auto simp: count_list_0_iff)

lemma promises_grow_happen:
  "length (promises reg) \<le> length (promises (happen reg e))"
  by (cases e) (auto simp: request_def settle_def Let_def split: option.splits)

lemma settled_stays_happen:
  assumes "p < length (promises reg)" and "promises reg ! p = Settled out"
  shows "promises (happen reg e) ! p = Settled out"
  using assms
  by (cases e) (auto simp: request_def settle_def Let_def nth_append nth_list_update
      split: option.splits)

lemma settled_stays:
  assumes "p < length (promises reg)" and "promises reg ! p = Settled out"
  shows "p < length (promises (after evs reg)) \<and> promises (after evs reg) ! p = Settled out"
proof (induction evs rule: rev_induct)
  case Nil
  from assms show ?case by simp
next
  case (snoc e evs)
  then show ?case
    using promises_grow_happen [of "after evs reg" e]
    by (simp add: settled_stays_happen)
qed

lemma requestFunctions_happen [simp]:
  "requestFunctions (happen reg e) = requestFunctions reg"
  by (cases e) (auto simp: request_def settle_def Let_def split: option.splits)

lemma requestFunctions_after [simp]:
  "requestFunctions (after evs reg) = requestFunctions reg"
  by (induction evs rule: rev_induct) simp_all

lemma answered_happen:
  assumes "requestFunctions reg (''request'' @ name) \<noteq> None"
  shows "length (filter (\<lambda>np. fst np = name) (handedOut (happen reg e)))
     = length (filter (\<lambda>np. fst np = name) (handedOut reg))
       + (if e = Request name then 1 else 0)"
  using assms
  by (cases e) (auto simp: request_def settle_def Let_def split: option.splits)

lemma answered_after:
  assumes "requestFunctions reg (''request'' @ name) \<noteq> None"
  shows "length (filter (\<lambda>np. fst np = name) (handedOut (after evs reg)))
     = length (filter (\<lambda>np. fst np = name) (handedOut reg)) + count_list evs (Request name)"
proof (induction evs rule: rev_induct)
  case Nil
  show ?case by simp
next
  case (snoc e evs)
  from assms have "requestFunctions (after evs reg) (''request'' @ name) \<noteq> None"
    by simp
  from answered_happen [OF this, of e] snoc show ?case
    by simp
qed

text \<open>
  Claim C4: in a registry made for a run from \<^verbatim>\<open>instantiateComputedArtifacts\<close>, whatever
  requests are made and whatever computations settle, in whatever order: the compute
  function of a name is executed at most once; every request of a bound name is
  answered; any two promises handed out for a name are the same promise, which came
  from the one execution for that name; and a promise that has settled keeps its
  outcome whatever happens later, so that every caller sees the same value.
\<close>

theorem C4_computed_at_most_once:
  "count_list (computeCalls (after evs (newRegistry (instantiateComputedArtifacts env)))) name \<le> 1
   \<and> (instantiateComputedArtifacts env (''request'' @ name) \<noteq> None
      \<longrightarrow> length (filter (\<lambda>np. fst np = name)
            (handedOut (after evs (newRegistry (instantiateComputedArtifacts env)))))
          = count_list evs (Request name))
   \<and> ((name, p) \<in> set (handedOut (after evs (newRegistry (instantiateComputedArtifacts env))))
        \<and> (name, q) \<in> set (handedOut (after evs (newRegistry (instantiateComputedArtifacts env))))
      \<longrightarrow> p = q
        \<and> p < length (promises (after evs (newRegistry (instantiateComputedArtifacts env))))
        \<and> name \<in> set (computeCalls (after evs (newRegistry (instantiateComputedArtifacts env)))))
   \<and> (p < length (promises (after evs (newRegistry (instantiateComputedArtifacts env))))
        \<and> promises (after evs (newRegistry (instantiateComputedArtifacts env))) ! p = Settled out
      \<longrightarrow> promises (after (evs @ later) (newRegistry (instantiateComputedArtifacts env))) ! p
          = Settled out)"
proof -
  let ?new = "newRegistry (instantiateComputedArtifacts env)"
  let ?reg = "after evs ?new"
  have c: "consistent ?reg"
    by (simp add: consistent_after consistent_new)
  then have "distinct (computeCalls ?reg)"
    unfolding consistent_def by blast
  then have once: "count_list (computeCalls ?reg) name \<le> 1"
    by (rule count_list_distinct)
  have answered: "length (filter (\<lambda>np. fst np = name) (handedOut ?reg))
      = count_list evs (Request name)"
    if "instantiateComputedArtifacts env (''request'' @ name) \<noteq> None"
    using answered_after [of ?new name evs] that by (simp add: newRegistry_def)
  have same: "p = q \<and> p < length (promises ?reg) \<and> name \<in> set (computeCalls ?reg)"
    if "(name, p) \<in> set (handedOut ?reg)" "(name, q) \<in> set (handedOut ?reg)"
  proof -
    from c that have "cached ?reg name = Some p" "cached ?reg name = Some q"
      unfolding consistent_def by fastforce+
    with c show ?thesis
      unfolding consistent_def by auto
  qed
  have final: "promises (after (evs @ later) ?new) ! p = Settled out"
    if "p < length (promises ?reg)" "promises ?reg ! p = Settled out"
    using settled_stays [OF that, of later] by (simp add: after_append)
  from once answered same final show ?thesis by blast
qed

lemma instantiate0: "instantiateComputedArtifacts env0 = [''requestSpeedline'' \<mapsto> ''speedline'']"
  by (simp add: instantiateComputedArtifacts_def env0_def drop_js_def)

theorem C4_computed_at_most_once_witness:
  "count_list (computeCalls (after
       [Request ''Speedline'', Request ''Speedline'', Settle ''Speedline'' (Resolved ''frames'')]
       (newRegistry (instantiateComputedArtifacts env0)))) ''Speedline'' \<le> 1
   \<and> length (filter (\<lambda>np. fst np = ''Speedline'') (handedOut (after
       [Request ''Speedline'', Request ''Speedline'', Settle ''Speedline'' (Resolved ''frames'')]
       (newRegistry (instantiateComputedArtifacts env0))))) = 2
   \<and> promises (after
       ([Request ''Speedline'', Request ''Speedline'', Settle ''Speedline'' (Resolved ''frames'')]
          @ [Request ''Speedline''])
       (newRegistry (instantiateComputedArtifacts env0))) ! 0 = Settled (Resolved ''frames'')"
proof -
  let ?evs = "[Request ''Speedline'', Request ''Speedline'',
     Settle ''Speedline'' (Resolved ''frames'')]"
  let ?reg = "after ?evs (newRegistry (instantiateComputedArtifacts env0))"
  have bound: "instantiateComputedArtifacts env0 (''request'' @ ''Speedline'') \<noteq> None"
    by (simp add: instantiate0)
  have reg: "promises ?reg = [Settled (Resolved ''frames'')]"
    "handedOut ?reg = [(''Speedline'', 0), (''Speedline'', 0)]"
    by (simp_all add: after_def instantiate0 newRegistry_def request_def settle_def)
  then have settled: "0 < length (promises ?reg)"
    "promises ?reg ! 0 = Settled (Resolved ''frames'')"
    by simp_all
  have requests: "count_list ?evs (Request ''Speedline'') = 2"
    by simp
  from C4_computed_at_most_once [where env = env0 and evs = ?evs and name = "''Speedline''"
      and p = 0 and out = "Resolved ''frames''" and later = "[Request ''Speedline'']"]
    bound settled requests
  show ?thesis by presburger
qed

end
